theory Spec2Isabelle
  imports Complex_Main
begin

section \<open>Common conventions\<close>

text \<open>
  A \<^verbatim>\<open>datetime\<close> is modelled as an integer number of microseconds (the resolution of
  Python's \<^verbatim>\<open>datetime\<close>), a \<^verbatim>\<open>timedelta\<close> as a difference of two of them.
  Every call of \<^verbatim>\<open>datetime.now()\<close> in the source is a parameter of the model.
  Stored prices and percentages are Python floats in the source; they are modelled
  as real numbers, so rounding is outside the model. What a provider hands back may
  also be infinite or NaN; that is the type \<open>fvalue\<close> below.
  Symbols and reason codes are strings, as in the source.
\<close>

type_synonym datetime = int

definition seconds :: "int \<Rightarrow> int" where
  "seconds n = n * 1000000"

definition minutes :: "int \<Rightarrow> int" where
  "minutes n = seconds (60 * n)"

definition hours :: "int \<Rightarrow> int" where
  "hours n = minutes (60 * n)"

section \<open>alert\_system.py: class AlertSystem\<close>

text \<open>One row of the \<^verbatim>\<open>alert_history\<close> data frame.\<close>

record alert_record =
  ar_timestamp :: datetime
  ar_symbol :: string
  ar_discrepancy :: real
  ar_alert_sent :: bool
  ar_alert_type :: string

text \<open>
  The mutable fields of an \<^verbatim>\<open>AlertSystem\<close> object that the admission logic reads or
  writes. The threshold is read from the environment (default 0.5) at construction.
\<close>

record alert_system =
  threshold :: real
  alert_history :: "alert_record list"
  last_alert_time :: "string \<Rightarrow> datetime option"

definition alert_cooldown :: int where
  "alert_cooldown = minutes 5"

definition new_alert_system :: "real \<Rightarrow> alert_system" where
  "new_alert_system thr =
     \<lparr>threshold = thr, alert_history = [], last_alert_time = Map.empty\<rparr>"

text \<open>
  The rows selected by
  \<^verbatim>\<open>(history['Symbol'] == symbol) & (history['Timestamp'] > current_time - timedelta(hours=1))\<close>.
\<close>

definition recent_alerts :: "alert_system \<Rightarrow> datetime \<Rightarrow> string \<Rightarrow> alert_record list" where
  "recent_alerts s current_time symbol =
     filter (\<lambda>r. ar_symbol r = symbol \<and> ar_timestamp r > current_time - hours 1)
       (alert_history s)"

text \<open>
  \<^verbatim>\<open>_validate_alert_conditions\<close>: the checks in the order of the source
  (cooldown, threshold, hourly count). \<open>current_time\<close> is the clock value the
  method reads on entry.
\<close>

definition validate_alert_conditions ::
  "alert_system \<Rightarrow> datetime \<Rightarrow> string \<Rightarrow> real \<Rightarrow> bool \<times> string" where
  "validate_alert_conditions s current_time symbol price_difference =
     (if (case last_alert_time s symbol of
            None \<Rightarrow> False
          | Some t \<Rightarrow> current_time - t < alert_cooldown)
      then (False, ''cooldown'')
      else if \<bar>price_difference\<bar> \<le> threshold s then (False, ''below_threshold'')
      else if length (recent_alerts s current_time symbol) \<ge> 5 then (False, ''rate_limit'')
      else (True, ''valid''))"

definition should_send_alert :: "alert_system \<Rightarrow> real \<Rightarrow> bool" where
  "should_send_alert s price_difference \<longleftrightarrow> \<bar>price_difference\<bar> > threshold s"

text \<open>
  \<^verbatim>\<open>send_alert\<close>. The method reads the clock twice: once inside
  \<^verbatim>\<open>_validate_alert_conditions\<close> (\<open>t_validate\<close>) and once while building the
  message (\<open>t_send\<close>); the second value is the one stored. \<open>delivered\<close> says
  whether the body of the \<^verbatim>\<open>try\<close> block up to \<^verbatim>\<open>server.send_message\<close> ran without an
  exception. The method returns a \<^verbatim>\<open>bool\<close>; the model returns it with the new state.
\<close>

record alert_call =
  t_validate :: datetime
  t_send :: datetime
  delivered :: bool
  arg_symbol :: string
  arg_alpha_price :: real
  arg_yahoo_price :: real
  arg_difference_percentage :: real

text \<open>The row \<^verbatim>\<open>send_alert\<close> adds to the history after a delivery.\<close>

definition alert_row :: "alert_call \<Rightarrow> alert_record" where
  "alert_row c =
     \<lparr>ar_timestamp = t_send c, ar_symbol = arg_symbol c,
      ar_discrepancy = arg_difference_percentage c, ar_alert_sent = True,
      ar_alert_type = ''threshold_exceeded''\<rparr>"

definition send_alert :: "alert_system \<Rightarrow> alert_call \<Rightarrow> bool \<times> alert_system" where
  "send_alert s c =
     (case validate_alert_conditions s (t_validate c) (arg_symbol c) (arg_difference_percentage c) of
        (should_alert, reason) \<Rightarrow>
          if \<not> should_alert then (False, s)
          else if delivered c then
            (True,
             s\<lparr>last_alert_time := (last_alert_time s)(arg_symbol c \<mapsto> t_send c),
               alert_history := alert_history s @ [alert_row c]\<rparr>)
          else (False, s))"

text \<open>A sequence of \<^verbatim>\<open>send_alert\<close> calls on one object.\<close>

fun send_alerts :: "alert_system \<Rightarrow> alert_call list \<Rightarrow> alert_system" where
  "send_alerts s [] = s"
| "send_alerts s (c # cs) = send_alerts (snd (send_alert s c)) cs"

section \<open>data\_fetcher.py: class DataFetcher\<close>

subsection \<open>The pandas and numpy operations the class uses\<close>

text \<open>\<^verbatim>\<open>.tail(n)\<close>: the last \<open>n\<close> rows, all of them when there are fewer.\<close>

definition tail :: "nat \<Rightarrow> 'a list \<Rightarrow> 'a list" where
  "tail n xs = drop (length xs - n) xs"

text \<open>\<^verbatim>\<open>.mean()\<close> of a non-empty column.\<close>

definition mean :: "real list \<Rightarrow> real" where
  "mean xs = sum_list xs / real (length xs)"

text \<open>
  \<^verbatim>\<open>.rolling(window=w, min_periods=1).mean()\<close>: at every position the mean of the
  window of at most \<open>w\<close> values that ends there.
\<close>

definition rolling_mean :: "nat \<Rightarrow> real list \<Rightarrow> real list" where
  "rolling_mean w xs = map (\<lambda>i. mean (tail w (take (Suc i) xs))) [0..<length xs]"

text \<open>\<^verbatim>\<open>.std()\<close>: pandas' default, with \<open>ddof = 1\<close>.\<close>

definition std :: "real list \<Rightarrow> real" where
  "std xs = sqrt (sum_list (map (\<lambda>x. (x - mean xs)\<^sup>2) xs) / (real (length xs) - 1))"

fun is_monotonic_increasing :: "real list \<Rightarrow> bool" where
  "is_monotonic_increasing [] = True"
| "is_monotonic_increasing [x] = True"
| "is_monotonic_increasing (x # y # ys) = (x \<le> y \<and> is_monotonic_increasing (y # ys))"

fun is_monotonic_decreasing :: "real list \<Rightarrow> bool" where
  "is_monotonic_decreasing [] = True"
| "is_monotonic_decreasing [x] = True"
| "is_monotonic_decreasing (x # y # ys) = (x \<ge> y \<and> is_monotonic_decreasing (y # ys))"

subsection \<open>State\<close>

text \<open>One row of the \<^verbatim>\<open>price_history\<close> data frame.\<close>

record comparison_record =
  cr_timestamp :: datetime
  cr_symbol :: string
  cr_alpha :: real
  cr_yahoo :: real
  cr_difference :: real
  cr_moving_average :: "real option"
  cr_volatility :: "real option"

record data_fetcher =
  price_history :: "comparison_record list"
  last_fetch_time :: "string \<Rightarrow> datetime option"

definition new_data_fetcher :: data_fetcher where
  "new_data_fetcher = \<lparr>price_history = [], last_fetch_time = Map.empty\<rparr>"

subsection \<open>\_calculate\_analytics\<close>

record analytics =
  moving_average :: "real option"
  volatility :: "real option"
  trend :: "string option"

definition no_analytics :: analytics where
  "no_analytics = \<lparr>moving_average = None, volatility = None, trend = None\<rparr>"

definition calculate_analytics :: "data_fetcher \<Rightarrow> string \<Rightarrow> analytics" where
  "calculate_analytics st symbol =
     (if length (price_history st) < 2 then no_analytics
      else
        let symbol_data = filter (\<lambda>r. cr_symbol r = symbol) (price_history st) in
        if length symbol_data < 2 then no_analytics
        else
          let differences = map cr_difference symbol_data;
              moving_avg = last (rolling_mean 5 differences);
              recent_diffs = tail 5 differences
          in \<lparr>moving_average = Some moving_avg,
              volatility = Some (std differences),
              trend = Some (if is_monotonic_increasing recent_diffs then ''increasing''
                            else if is_monotonic_decreasing recent_diffs then ''decreasing''
                            else ''fluctuating'')\<rparr>)"

subsection \<open>\_cross\_validate\_prices\<close>

text \<open>
  The divisions are numpy's. They agree with division of reals whenever the divisor is
  not zero; the divisors here are the smaller of the two prices and the two recent
  averages, which are positive for positive prices and a history of positive prices.
\<close>

definition cross_validate_prices :: "data_fetcher \<Rightarrow> real \<Rightarrow> real \<Rightarrow> string \<Rightarrow> bool" where
  "cross_validate_prices st alpha yahoo symbol =
     (if \<bar>alpha - yahoo\<bar> / min alpha yahoo > 2 / 10 then
        (if price_history st \<noteq> [] then
           (let recent_data = tail 5 (filter (\<lambda>r. cr_symbol r = symbol) (price_history st)) in
            if recent_data \<noteq> [] then
              (let avg_alpha = mean (map cr_alpha recent_data);
                   avg_yahoo = mean (map cr_yahoo recent_data)
               in if \<bar>alpha - avg_alpha\<bar> / avg_alpha > 1 / 10 \<and>
                     \<bar>yahoo - avg_yahoo\<bar> / avg_yahoo > 1 / 10 then False
                  else if \<bar>alpha - avg_alpha\<bar> / avg_alpha > 1 / 10 then False
                  else if \<bar>yahoo - avg_yahoo\<bar> / avg_yahoo > 1 / 10 then False
                  else True)
            else True)
         else True)
      else True)"

subsection \<open>The price sources and \_validate\_price\<close>

text \<open>
  A float as a provider can deliver it, and a raw field of a provider's answer: absent,
  not a number, or a float.
\<close>

datatype fvalue = Finite real | PosInf | NegInf | NaN

datatype raw_value = Missing | NonNumeric | Num fvalue

text \<open>
  What the Alpha Vantage client hands back: the call raises, or it returns the quote,
  of which only the field \<^verbatim>\<open>'05. price'\<close> is read. What \<^verbatim>\<open>yfinance\<close> hands back:
  the call raises, or it returns the column of closing prices (possibly empty).
\<close>

datatype av_reply = AVRaises | AVQuote raw_value

datatype yf_reply = YFRaises | YFCloses "fvalue list"

text \<open>The provider calls a fetch makes, in order.\<close>

datatype net_call = AlphaVantageCall string | YahooFinanceCall string

text \<open>
  \<^verbatim>\<open>float(data['05. price'])\<close>: \<^verbatim>\<open>KeyError\<close> on an absent field and \<^verbatim>\<open>ValueError\<close> on text
  that is not a number; both are caught by the caller's \<^verbatim>\<open>except\<close>, so the model only
  says that there is no float.
\<close>

fun py_float :: "raw_value \<Rightarrow> fvalue option" where
  "py_float Missing = None"
| "py_float NonNumeric = None"
| "py_float (Num f) = Some f"

text \<open>
  Modelled from the spec: \<^verbatim>\<open>DataFetcher._validate_price\<close> is called by both fetch
  methods but no definition of it is in the source files. The specification's
  PriceValidator has the contract
  \<^verbatim>\<open>validate(raw_value, source_label, symbol) -> price | rejected\<close> and
  ``rejects when raw\_value is missing, non-numeric, zero, negative, or non-finite'';
  it raises nothing and has no side effects. The label and the symbol only go into
  the diagnostic and are left out.
\<close>

fun validate_price :: "raw_value \<Rightarrow> real option" where
  "validate_price Missing = None"
| "validate_price NonNumeric = None"
| "validate_price (Num (Finite x)) = (if x \<le> 0 then None else Some x)"
| "validate_price (Num PosInf) = None"
| "validate_price (Num NegInf) = None"
| "validate_price (Num NaN) = None"

subsection \<open>get\_alpha\_vantage\_data and get\_yahoo\_finance\_data\<close>

text \<open>
  \<^verbatim>\<open>get_alpha_vantage_data\<close>. Within 12 seconds of the symbol's last successful
  fetch the method returns \<^verbatim>\<open>self.price_history['Alpha Vantage Price'].iloc[-1]\<close>, the
  last row of the whole history; on an empty history this raises \<^verbatim>\<open>IndexError\<close>, which
  the method's \<^verbatim>\<open>except\<close> turns into \<^verbatim>\<open>None\<close>. The result is the price, the new state and
  the provider calls made.
\<close>

definition get_alpha_vantage_data ::
  "data_fetcher \<Rightarrow> datetime \<Rightarrow> av_reply \<Rightarrow> string \<Rightarrow> real option \<times> data_fetcher \<times> net_call list" where
  "get_alpha_vantage_data st current_time reply symbol =
     (if (case last_fetch_time st symbol of
            None \<Rightarrow> False
          | Some t \<Rightarrow> current_time - t < seconds 12)
      then (case price_history st of
              [] \<Rightarrow> (None, st, [])
            | _ # _ \<Rightarrow> (Some (cr_alpha (last (price_history st))), st, []))
      else (case reply of
              AVRaises \<Rightarrow> (None, st, [AlphaVantageCall symbol])
            | AVQuote raw \<Rightarrow>
                (case py_float raw of
                   None \<Rightarrow> (None, st, [AlphaVantageCall symbol])
                 | Some f \<Rightarrow>
                     (case validate_price (Num f) of
                        Some price \<Rightarrow>
                          (Some price,
                           st\<lparr>last_fetch_time := (last_fetch_time st)(symbol \<mapsto> current_time)\<rparr>,
                           [AlphaVantageCall symbol])
                      | None \<Rightarrow> (None, st, [AlphaVantageCall symbol])))))"

text \<open>
  \<^verbatim>\<open>get_yahoo_finance_data\<close> reads neither \<^verbatim>\<open>last_fetch_time\<close> nor the history and
  changes no state.
\<close>

definition get_yahoo_finance_data ::
  "data_fetcher \<Rightarrow> yf_reply \<Rightarrow> string \<Rightarrow> real option \<times> net_call list" where
  "get_yahoo_finance_data st reply symbol =
     (case reply of
        YFRaises \<Rightarrow> (None, [YahooFinanceCall symbol])
      | YFCloses closes \<Rightarrow>
          (if closes = [] then (None, [YahooFinanceCall symbol])
           else (validate_price (Num (last closes)), [YahooFinanceCall symbol])))"

subsection \<open>get\_price\_comparison\<close>

text \<open>
  What one call of \<^verbatim>\<open>get_price_comparison\<close> reads from outside: the clock in
  \<^verbatim>\<open>get_alpha_vantage_data\<close>, the clock when the row is built, and the two providers.
\<close>

record cycle_env =
  fetch_time :: datetime
  record_time :: datetime
  alpha_vantage :: av_reply
  yahoo_finance :: yf_reply

datatype py_error = TypeError

text \<open>The row a cycle stores; the analytics are those of the state before the row is added.\<close>

definition new_data :: "data_fetcher \<Rightarrow> datetime \<Rightarrow> string \<Rightarrow> real \<Rightarrow> real \<Rightarrow> comparison_record" where
  "new_data st now symbol alpha yahoo =
     \<lparr>cr_timestamp = now, cr_symbol = symbol, cr_alpha = alpha, cr_yahoo = yahoo,
      cr_difference = \<bar>alpha - yahoo\<bar> / alpha * 100,
      cr_moving_average = moving_average (calculate_analytics st symbol),
      cr_volatility = volatility (calculate_analytics st symbol)\<rparr>"

text \<open>
  \<^verbatim>\<open>get_price_comparison\<close>. After the row is stored and the history cut to its last
  1000 rows, the method formats the log line with \<^verbatim>\<open>{analytics["moving_average"]:.2f}\<close>;
  when the analytics are \<^verbatim>\<open>None\<close> this raises \<^verbatim>\<open>TypeError\<close>, which nothing in the method
  catches, so the call ends with the error and the state already updated.
\<close>

definition get_price_comparison ::
  "data_fetcher \<Rightarrow> cycle_env \<Rightarrow> string \<Rightarrow>
     (py_error + real option \<times> real option \<times> real option) \<times> data_fetcher \<times> net_call list" where
  "get_price_comparison st env symbol =
     (case get_alpha_vantage_data st (fetch_time env) (alpha_vantage env) symbol of
        (alpha_price, st1, calls1) \<Rightarrow>
     (case get_yahoo_finance_data st1 (yahoo_finance env) symbol of
        (yahoo_price, calls2) \<Rightarrow>
     (case (alpha_price, yahoo_price) of
        (Some alpha, Some yahoo) \<Rightarrow>
          if \<not> cross_validate_prices st1 alpha yahoo symbol
          then (Inr (None, None, None), st1, calls1 @ calls2)
          else
            let row = new_data st1 (record_time env) symbol alpha yahoo;
                history = price_history st1 @ [row];
                st2 = st1\<lparr>price_history :=
                        (if length history > 1000 then tail 1000 history else history)\<rparr>
            in (case (cr_moving_average row, cr_volatility row) of
                  (Some ma, Some vol) \<Rightarrow>
                    (Inr (Some alpha, Some yahoo, Some (cr_difference row)), st2, calls1 @ calls2)
                | _ \<Rightarrow> (Inl TypeError, st2, calls1 @ calls2))
      | _ \<Rightarrow> (Inr (None, None, None), st1, calls1 @ calls2))))"

text \<open>A sequence of cycles on one object; a cycle that ends with an error leaves its state behind.\<close>

fun get_price_comparisons :: "data_fetcher \<Rightarrow> (cycle_env \<times> string) list \<Rightarrow> data_fetcher" where
  "get_price_comparisons st [] = st"
| "get_price_comparisons st ((env, symbol) # cs) =
     get_price_comparisons (fst (snd (get_price_comparison st env symbol))) cs"

section \<open>Invariants and example states\<close>

text \<open>
  The invariant behind the cooldown: every stored alert is no later than its symbol's
  entry in \<^verbatim>\<open>last_alert_time\<close>, and two stored alerts of one symbol are a cooldown apart,
  the later one stored later.
\<close>

definition cooldown_inv :: "alert_system \<Rightarrow> bool" where
  "cooldown_inv s \<longleftrightarrow>
     (\<forall>r \<in> set (alert_history s).
        \<exists>t. last_alert_time s (ar_symbol r) = Some t \<and> ar_timestamp r \<le> t) \<and>
     sorted_wrt
       (\<lambda>a b. ar_symbol a = ar_symbol b \<longrightarrow> ar_timestamp a + alert_cooldown \<le> ar_timestamp b)
       (alert_history s)"

text \<open>
  Example calls: symbol XYZ, prices 100.00 and 100.80, discrepancy 0.80 percent, at a
  given minute, with a working mail server.
\<close>

definition ex_call :: "int \<Rightarrow> alert_call" where
  "ex_call m = \<lparr>t_validate = minutes m, t_send = minutes m, delivered = True,
     arg_symbol = ''XYZ'', arg_alpha_price = 100, arg_yahoo_price = 1008 / 10,
     arg_difference_percentage = 8 / 10\<rparr>"

definition ex_five_calls :: "alert_call list" where
  "ex_five_calls = map ex_call [0, 10, 20, 30, 40]"

text \<open>XYZ alerted at time 0, threshold 0.5; and an alert system that has sent nothing.\<close>

definition ex_cooling :: alert_system where
  "ex_cooling = \<lparr>threshold = 1 / 2, alert_history = [alert_row (ex_call 0)],
     last_alert_time = [''XYZ'' \<mapsto> 0]\<rparr>"

definition ex_idle :: alert_system where
  "ex_idle = new_alert_system (1 / 2)"

text \<open>The example call with a mail server that fails, and one below the threshold.\<close>

definition ex_undelivered :: alert_call where
  "ex_undelivered = (ex_call 0)\<lparr>delivered := False\<rparr>"

definition ex_small :: alert_call where
  "ex_small = (ex_call 0)\<lparr>arg_yahoo_price := 1001 / 10, arg_difference_percentage := 1 / 10\<rparr>"

text \<open>
  A data fetcher that fetched AAPL at time 0 and stored one row for it (Alpha Vantage
  100, Yahoo Finance 101).
\<close>

definition ex_row :: comparison_record where
  "ex_row = \<lparr>cr_timestamp = 0, cr_symbol = ''AAPL'', cr_alpha = 100, cr_yahoo = 101,
     cr_difference = 1, cr_moving_average = None, cr_volatility = None\<rparr>"

definition ex_fetched :: data_fetcher where
  "ex_fetched = \<lparr>price_history = [ex_row], last_fetch_time = [''AAPL'' \<mapsto> 0]\<rparr>"

text \<open>
  The same after a row for MSFT (Alpha Vantage 250, Yahoo Finance 251) was stored half a
  second later: the last row of the history is not a row of AAPL.
\<close>

definition ex_other_row :: comparison_record where
  "ex_other_row = \<lparr>cr_timestamp = 500000, cr_symbol = ''MSFT'', cr_alpha = 250, cr_yahoo = 251,
     cr_difference = 4 / 10, cr_moving_average = None, cr_volatility = None\<rparr>"

definition ex_interleaved :: data_fetcher where
  "ex_interleaved = \<lparr>price_history = [ex_row, ex_other_row],
     last_fetch_time = [''AAPL'' \<mapsto> 0, ''MSFT'' \<mapsto> 500000]\<rparr>"

text \<open>Six rows for XYZ whose discrepancies are 1, 2, 3, 4, 5, 6 percent.\<close>

definition ex_diff_row :: "real \<Rightarrow> comparison_record" where
  "ex_diff_row d = \<lparr>cr_timestamp = 0, cr_symbol = ''XYZ'', cr_alpha = 100, cr_yahoo = 100 + d,
     cr_difference = d, cr_moving_average = None, cr_volatility = None\<rparr>"

definition ex_six :: data_fetcher where
  "ex_six = \<lparr>price_history = map ex_diff_row [1, 2, 3, 4, 5, 6], last_fetch_time = Map.empty\<rparr>"

text \<open>
  A history in which XYZ has six rows, the oldest with prices far from the later five,
  and a row of AAPL stands between them: the last five rows of XYZ average to 100 and
  125, all six to 250 and about 271.
\<close>

definition ex_pair_row :: "string \<Rightarrow> real \<Rightarrow> real \<Rightarrow> comparison_record" where
  "ex_pair_row s a y = \<lparr>cr_timestamp = 0, cr_symbol = s, cr_alpha = a, cr_yahoo = y,
     cr_difference = \<bar>a - y\<bar> / a * 100, cr_moving_average = None, cr_volatility = None\<rparr>"

definition ex_windowed :: data_fetcher where
  "ex_windowed = \<lparr>price_history =
       [ex_pair_row ''XYZ'' 1000 1000, ex_row,
        ex_pair_row ''XYZ'' 98 123, ex_pair_row ''XYZ'' 99 124, ex_pair_row ''XYZ'' 100 125,
        ex_pair_row ''XYZ'' 101 126, ex_pair_row ''XYZ'' 102 127],
     last_fetch_time = Map.empty\<rparr>"

text \<open>All stored prices are positive.\<close>

definition positive_history :: "data_fetcher \<Rightarrow> bool" where
  "positive_history st \<longleftrightarrow> (\<forall>r \<in> set (price_history st). 0 < cr_alpha r \<and> 0 < cr_yahoo r)"

text \<open>
  A history at the cap of 1000 rows, and a cycle in which Alpha Vantage answers 100 and
  Yahoo Finance 101, fetched at time 0 and stored at time 1.
\<close>

definition ex_full :: data_fetcher where
  "ex_full = \<lparr>price_history = replicate 1000 ex_row, last_fetch_time = Map.empty\<rparr>"

definition ex_env :: cycle_env where
  "ex_env = \<lparr>fetch_time = 0, record_time = 1, alpha_vantage = AVQuote (Num (Finite 100)),
     yahoo_finance = YFCloses [Finite 101]\<rparr>"

text \<open>
  A cycle in which both providers answer 100, at time 0. Run for the symbols X, X and
  then 999 times Y, it fills the history beyond the cap, so that the first row of X is
  evicted.
\<close>

definition ex_flat :: cycle_env where
  "ex_flat = \<lparr>fetch_time = 0, record_time = 0, alpha_vantage = AVQuote (Num (Finite 100)),
     yahoo_finance = YFCloses [Finite 100]\<rparr>"

definition ex_evicting :: "(cycle_env \<times> string) list" where
  "ex_evicting = map (Pair ex_flat) ([''X'', ''X''] @ replicate 999 ''Y'')"

text \<open>
  The invariant of such runs: every stored price is 100 and every stored discrepancy 0,
  and a symbol has an entry in
  \<^verbatim>\<open>last_fetch_time\<close> only when the history is not empty.
\<close>

definition flat_inv :: "data_fetcher \<Rightarrow> bool" where
  "flat_inv st \<longleftrightarrow>
     (\<forall>r \<in> set (price_history st).
        cr_alpha r = 100 \<and> cr_yahoo r = 100 \<and> cr_difference r = 0) \<and>
     (price_history st = [] \<longrightarrow> (\<forall>s. last_fetch_time st s = None))"

section \<open>Properties of the alert system\<close>

lemmas alert_eval = send_alert_def validate_alert_conditions_def recent_alerts_def alert_row_def
  new_alert_system_def alert_cooldown_def hours_def minutes_def seconds_def ex_call_def

lemma alert_cooldown_pos: "0 < alert_cooldown"
  by (simp add: alert_cooldown_def minutes_def seconds_def)

lemma send_alert_cases:
  "send_alert s c = (False, s) \<or>
   (fst (validate_alert_conditions s (t_validate c) (arg_symbol c) (arg_difference_percentage c)) \<and>
    delivered c \<and>
    send_alert s c =
      (True, s\<lparr>last_alert_time := (last_alert_time s)(arg_symbol c \<mapsto> t_send c),
               alert_history := alert_history s @ [alert_row c]\<rparr>))"
  by (auto simp: send_alert_def split: prod.splits)

lemma send_alert_history:
  "alert_history (snd (send_alert s c)) = alert_history s \<or>
   alert_history (snd (send_alert s c)) = alert_history s @ [alert_row c]"
  using send_alert_cases [of s c] by auto

subsection \<open>Cooldown\<close>

lemma cooldown_first:
  assumes "last_alert_time s symbol = Some t" and "now - t < alert_cooldown"
  shows "validate_alert_conditions s now symbol d = (False, ''cooldown'')"
  using assms by (simp add: validate_alert_conditions_def)

lemma validate_passes_cooldown:
  assumes "fst (validate_alert_conditions s now symbol d)"
    and "last_alert_time s symbol = Some t"
  shows "t + alert_cooldown \<le> now"
  using assms by (auto simp: validate_alert_conditions_def split: if_splits)

lemma cooldown_inv_new: "cooldown_inv (new_alert_system thr)"
  by (simp add: cooldown_inv_def new_alert_system_def)

lemma cooldown_inv_step:
  assumes inv: "cooldown_inv s" and mono: "t_validate c \<le> t_send c"
  shows "cooldown_inv (snd (send_alert s c))"
proof -
  consider (same) "send_alert s c = (False, s)"
    | (sent) "fst (validate_alert_conditions s (t_validate c) (arg_symbol c)
                (arg_difference_percentage c))"
        "send_alert s c =
           (True, s\<lparr>last_alert_time := (last_alert_time s)(arg_symbol c \<mapsto> t_send c),
                    alert_history := alert_history s @ [alert_row c]\<rparr>)"
    using send_alert_cases [of s c] by blast
  then show ?thesis
  proof cases
    case same
    then show ?thesis using inv by simp
  next
    case sent
    have old: "ar_timestamp r + alert_cooldown \<le> t_send c"
      if "r \<in> set (alert_history s)" "ar_symbol r = arg_symbol c" for r
    proof -
      from inv that obtain t where
        t: "last_alert_time s (arg_symbol c) = Some t" "ar_timestamp r \<le> t"
        by (auto simp: cooldown_inv_def)
      from validate_passes_cooldown [OF sent(1) t(1)]
      have "t + alert_cooldown \<le> t_validate c" .
      with t(2) mono show ?thesis by linarith
    qed
    have old': "ar_timestamp r \<le> t_send c"
      if "r \<in> set (alert_history s)" "ar_symbol r = arg_symbol c" for r
      using old [OF that] alert_cooldown_pos by linarith
    show ?thesis
      using inv old old'
      by (auto simp: sent(2) cooldown_inv_def sorted_wrt_append alert_row_def)
  qed
qed

lemma cooldown_inv_send_alerts:
  "cooldown_inv s \<Longrightarrow> \<forall>c \<in> set cs. t_validate c \<le> t_send c \<Longrightarrow>
   cooldown_inv (send_alerts s cs)"
  by (induction cs arbitrary: s) (auto intro: cooldown_inv_step)

lemma spaced_history:
  assumes "\<forall>c \<in> set cs. t_validate c \<le> t_send c"
    and "i < j" "j < length (alert_history (send_alerts (new_alert_system thr) cs))"
    and "ar_symbol (alert_history (send_alerts (new_alert_system thr) cs) ! i) =
         ar_symbol (alert_history (send_alerts (new_alert_system thr) cs) ! j)"
  shows "alert_cooldown \<le>
     ar_timestamp (alert_history (send_alerts (new_alert_system thr) cs) ! j) -
     ar_timestamp (alert_history (send_alerts (new_alert_system thr) cs) ! i)"
proof -
  let ?H = "alert_history (send_alerts (new_alert_system thr) cs)"
  from cooldown_inv_send_alerts [OF cooldown_inv_new assms(1)]
  have "sorted_wrt
      (\<lambda>a b. ar_symbol a = ar_symbol b \<longrightarrow> ar_timestamp a + alert_cooldown \<le> ar_timestamp b) ?H"
    by (simp add: cooldown_inv_def)
  with assms(2-4) have "ar_timestamp (?H ! i) + alert_cooldown \<le> ar_timestamp (?H ! j)"
    by (simp add: sorted_wrt_iff_nth_less)
  then show ?thesis by linarith
qed

text \<open>
  Claim C3. Start from a new alert system and make any sequence of \<^verbatim>\<open>send_alert\<close> calls,
  with any symbols, discrepancies, delivery outcomes and clock values, the clock not
  running backwards between the two readings inside one call. Then two stored alerts
  of one symbol are at least the cooldown of 5 minutes apart. And in any state, a call
  for a symbol whose entry in \<^verbatim>\<open>last_alert_time\<close> is less than 5 minutes old is
  rejected with reason cooldown, whatever the discrepancy, and \<^verbatim>\<open>send_alert\<close> returns
  \<^verbatim>\<open>False\<close> and changes nothing.
\<close>

theorem cooldown_spacing:
  "((\<forall>c \<in> set cs. t_validate c \<le> t_send c) \<longrightarrow>
    (\<forall>i j. i < j \<and> j < length (alert_history (send_alerts (new_alert_system thr) cs)) \<and>
       ar_symbol (alert_history (send_alerts (new_alert_system thr) cs) ! i) =
       ar_symbol (alert_history (send_alerts (new_alert_system thr) cs) ! j) \<longrightarrow>
       alert_cooldown \<le>
         ar_timestamp (alert_history (send_alerts (new_alert_system thr) cs) ! j) -
         ar_timestamp (alert_history (send_alerts (new_alert_system thr) cs) ! i))) \<and>
   (last_alert_time s symbol = Some t \<and> now - t < alert_cooldown \<longrightarrow>
      validate_alert_conditions s now symbol d = (False, ''cooldown'') \<and>
      (arg_symbol c = symbol \<and> t_validate c = now \<longrightarrow> send_alert s c = (False, s)))"
proof (intro conjI impI allI)
  fix i j
  assume "\<forall>c \<in> set cs. t_validate c \<le> t_send c"
    and "i < j \<and> j < length (alert_history (send_alerts (new_alert_system thr) cs)) \<and>
       ar_symbol (alert_history (send_alerts (new_alert_system thr) cs) ! i) =
       ar_symbol (alert_history (send_alerts (new_alert_system thr) cs) ! j)"
  then show "alert_cooldown \<le>
         ar_timestamp (alert_history (send_alerts (new_alert_system thr) cs) ! j) -
         ar_timestamp (alert_history (send_alerts (new_alert_system thr) cs) ! i)"
    using spaced_history [of cs i j thr] by blast
next
  assume a: "last_alert_time s symbol = Some t \<and> now - t < alert_cooldown"
  then show "validate_alert_conditions s now symbol d = (False, ''cooldown'')"
    using cooldown_first by blast
  assume "arg_symbol c = symbol \<and> t_validate c = now"
  with a show "send_alert s c = (False, s)"
    using cooldown_first [of s symbol t now "arg_difference_percentage c"]
    by (auto simp: send_alert_def)
qed

theorem cooldown_spacing_witness:
  "t_validate (ex_call 0) \<le> t_send (ex_call 0) \<and>
   t_validate (ex_call 2) \<le> t_send (ex_call 2) \<and>
   t_validate (ex_call 10) \<le> t_send (ex_call 10) \<and>
   map ar_timestamp
     (alert_history (send_alerts (new_alert_system (1 / 2)) [ex_call 0, ex_call 2, ex_call 10])) =
     [minutes 0, minutes 10] \<and>
   alert_cooldown \<le>
     ar_timestamp (alert_history
       (send_alerts (new_alert_system (1 / 2)) [ex_call 0, ex_call 2, ex_call 10]) ! 1) -
     ar_timestamp (alert_history
       (send_alerts (new_alert_system (1 / 2)) [ex_call 0, ex_call 2, ex_call 10]) ! 0) \<and>
   last_alert_time ex_cooling ''XYZ'' = Some 0 \<and> minutes 2 - 0 < alert_cooldown \<and>
   validate_alert_conditions ex_cooling (minutes 2) ''XYZ'' (8 / 10) = (False, ''cooldown'') \<and>
   send_alert ex_cooling (ex_call 2) = (False, ex_cooling)"
proof -
  let ?H = "alert_history (send_alerts (new_alert_system (1 / 2)) [ex_call 0, ex_call 2, ex_call 10])"
  have mono: "\<forall>c \<in> set [ex_call 0, ex_call 2, ex_call 10]. t_validate c \<le> t_send c"
    by (simp add: ex_call_def)
  have stored: "?H = [alert_row (ex_call 0), alert_row (ex_call 10)]"
    by (simp add: alert_eval)
  have entry: "last_alert_time ex_cooling ''XYZ'' = Some 0 \<and> minutes 2 - 0 < alert_cooldown"
    by (simp add: ex_cooling_def alert_cooldown_def minutes_def seconds_def)
  have call: "arg_symbol (ex_call 2) = ''XYZ'' \<and> t_validate (ex_call 2) = minutes 2"
    by (simp add: ex_call_def)
  note inst = cooldown_spacing [of "[ex_call 0, ex_call 2, ex_call 10]" "1 / 2" ex_cooling
      "''XYZ''" 0 "minutes 2" "8 / 10" "ex_call 2"]
  from inst mono have "0 < (1::nat) \<and> 1 < length ?H \<and> ar_symbol (?H ! 0) = ar_symbol (?H ! 1) \<longrightarrow>
      alert_cooldown \<le> ar_timestamp (?H ! 1) - ar_timestamp (?H ! 0)"
    by blast
  then have spaced: "alert_cooldown \<le> ar_timestamp (?H ! 1) - ar_timestamp (?H ! 0)"
    unfolding stored by (simp add: alert_row_def ex_call_def)
  from inst entry call have
    "validate_alert_conditions ex_cooling (minutes 2) ''XYZ'' (8 / 10) = (False, ''cooldown'') \<and>
     send_alert ex_cooling (ex_call 2) = (False, ex_cooling)"
    by blast
  moreover have "map ar_timestamp ?H = [minutes 0, minutes 10]"
    unfolding stored by (simp add: alert_row_def ex_call_def)
  moreover have "t_validate (ex_call 0) \<le> t_send (ex_call 0) \<and>
      t_validate (ex_call 2) \<le> t_send (ex_call 2) \<and>
      t_validate (ex_call 10) \<le> t_send (ex_call 10)"
    by (simp add: ex_call_def)
  ultimately show ?thesis using spaced entry by blast
qed

subsection \<open>Threshold\<close>

text \<open>
  Claim C4, as stated: a discrepancy of at most the threshold is rejected with reason
  below-threshold in every state of the alert system. It fails: the cooldown is
  checked first. With XYZ alerted at time 0 and threshold 0.5, a discrepancy of 0.1
  one second later is rejected with reason cooldown.
\<close>

theorem below_threshold_counterexample:
  "\<bar>1 / 10\<bar> \<le> threshold ex_cooling \<and>
   validate_alert_conditions ex_cooling (seconds 1) ''XYZ'' (1 / 10) = (False, ''cooldown'') \<and>
   validate_alert_conditions ex_cooling (seconds 1) ''XYZ'' (1 / 10) \<noteq>
     (False, ''below_threshold'')"
  by (simp add: validate_alert_conditions_def ex_cooling_def alert_cooldown_def minutes_def
      seconds_def)

text \<open>
  Claim C4, amended. A discrepancy of at most the threshold is rejected in every
  state of the alert system, whatever the alert history: with reason cooldown when the
  symbol's entry in \<^verbatim>\<open>last_alert_time\<close> is less than 5 minutes old, and with reason
  below-threshold otherwise.
\<close>

theorem below_threshold_suppressed:
  "\<bar>d\<bar> \<le> threshold s \<longrightarrow>
   validate_alert_conditions s now symbol d =
     (False,
      if (\<exists>t. last_alert_time s symbol = Some t \<and> now - t < alert_cooldown)
      then ''cooldown'' else ''below_threshold'')"
  by (auto simp: validate_alert_conditions_def split: option.splits)

theorem below_threshold_suppressed_witness:
  "\<bar>1 / 10\<bar> \<le> threshold ex_idle \<and>
   validate_alert_conditions ex_idle (seconds 1) ''XYZ'' (1 / 10) = (False, ''below_threshold'') \<and>
   validate_alert_conditions ex_cooling (minutes 7) ''XYZ'' (1 / 10) = (False, ''below_threshold'')"
proof -
  have "\<bar>1 / 10\<bar> \<le> threshold ex_idle" "\<bar>1 / 10\<bar> \<le> threshold ex_cooling"
    by (simp_all add: ex_idle_def ex_cooling_def new_alert_system_def)
  moreover have "\<not> (\<exists>t. last_alert_time ex_idle ''XYZ'' = Some t \<and> seconds 1 - t < alert_cooldown)"
    by (simp add: ex_idle_def new_alert_system_def)
  moreover have "\<not> (\<exists>t. last_alert_time ex_cooling ''XYZ'' = Some t \<and> minutes 7 - t < alert_cooldown)"
    by (simp add: ex_cooling_def alert_cooldown_def minutes_def seconds_def)
  ultimately show ?thesis
    using below_threshold_suppressed [of "1 / 10" ex_idle "seconds 1" "''XYZ''"]
      below_threshold_suppressed [of "1 / 10" ex_cooling "minutes 7" "''XYZ''"]
    by simp
qed

subsection \<open>Failed delivery\<close>

text \<open>
  Claim C5, as stated: when a call passes the admission checks and the delivery fails,
  the returned outcome is distinct from that of a suppressed alert. It fails:
  \<^verbatim>\<open>send_alert\<close> returns a \<^verbatim>\<open>bool\<close>, and it is \<^verbatim>\<open>False\<close> in both cases. On an alert
  system that has sent nothing, the admissible call with a failing mail server and the
  call below the threshold return the same value and leave the same state.
\<close>

theorem failed_delivery_counterexample:
  "validate_alert_conditions ex_idle (t_validate ex_undelivered) (arg_symbol ex_undelivered)
     (arg_difference_percentage ex_undelivered) = (True, ''valid'') \<and>
   \<not> delivered ex_undelivered \<and>
   validate_alert_conditions ex_idle (t_validate ex_small) (arg_symbol ex_small)
     (arg_difference_percentage ex_small) = (False, ''below_threshold'') \<and>
   send_alert ex_idle ex_undelivered = send_alert ex_idle ex_small"
  by (simp add: ex_idle_def ex_undelivered_def ex_small_def alert_eval)

text \<open>
  Claim C5, amended. When a call passes the admission checks and the delivery fails,
  no row is added to the alert history, \<^verbatim>\<open>last_alert_time\<close> is unchanged (the whole
  state is), and \<^verbatim>\<open>send_alert\<close> returns \<^verbatim>\<open>False\<close>, the value it also returns for every
  suppressed alert.
\<close>

theorem failed_delivery_keeps_state:
  "(fst (validate_alert_conditions s (t_validate c) (arg_symbol c) (arg_difference_percentage c)) \<and>
    \<not> delivered c \<longrightarrow>
      alert_history (snd (send_alert s c)) = alert_history s \<and>
      last_alert_time (snd (send_alert s c)) = last_alert_time s \<and>
      send_alert s c = (False, s)) \<and>
   (\<not> fst (validate_alert_conditions s (t_validate c') (arg_symbol c')
          (arg_difference_percentage c')) \<longrightarrow>
      send_alert s c' = (False, s))"
  by (auto simp: send_alert_def split: prod.splits)

theorem failed_delivery_keeps_state_witness:
  "fst (validate_alert_conditions ex_idle (t_validate ex_undelivered) (arg_symbol ex_undelivered)
     (arg_difference_percentage ex_undelivered)) \<and>
   \<not> delivered ex_undelivered \<and>
   alert_history (snd (send_alert ex_idle ex_undelivered)) = alert_history ex_idle \<and>
   last_alert_time (snd (send_alert ex_idle ex_undelivered)) = last_alert_time ex_idle \<and>
   send_alert ex_idle ex_undelivered = (False, ex_idle) \<and>
   \<not> fst (validate_alert_conditions ex_idle (t_validate ex_small) (arg_symbol ex_small)
     (arg_difference_percentage ex_small)) \<and>
   send_alert ex_idle ex_small = (False, ex_idle)"
proof -
  have "fst (validate_alert_conditions ex_idle (t_validate ex_undelivered)
      (arg_symbol ex_undelivered) (arg_difference_percentage ex_undelivered))"
    by (simp add: ex_idle_def ex_undelivered_def alert_eval)
  moreover have "\<not> delivered ex_undelivered"
    by (simp add: ex_undelivered_def ex_call_def)
  moreover have "\<not> fst (validate_alert_conditions ex_idle (t_validate ex_small)
      (arg_symbol ex_small) (arg_difference_percentage ex_small))"
    by (simp add: ex_idle_def ex_small_def alert_eval)
  ultimately show ?thesis
    using failed_delivery_keeps_state [of ex_idle ex_undelivered ex_small] by blast
qed

subsection \<open>Hourly rate limit\<close>

lemma send_alerts_history:
  "\<exists>ds. alert_history (send_alerts s cs) = alert_history s @ map alert_row ds \<and>
        length ds \<le> length cs \<and> (length ds = length cs \<longrightarrow> ds = cs)"
proof (induction cs arbitrary: s)
  case Nil
  then show ?case by simp
next
  case (Cons c cs)
  from Cons.IH [of "snd (send_alert s c)"] obtain ds where
    ds: "alert_history (send_alerts (snd (send_alert s c)) cs) =
           alert_history (snd (send_alert s c)) @ map alert_row ds"
        "length ds \<le> length cs" "length ds = length cs \<longrightarrow> ds = cs"
    by blast
  from send_alert_history [of s c] show ?case
  proof
    assume "alert_history (snd (send_alert s c)) = alert_history s"
    with ds show ?thesis by (intro exI [of _ ds]) simp
  next
    assume "alert_history (snd (send_alert s c)) = alert_history s @ [alert_row c]"
    with ds show ?thesis by (intro exI [of _ "c # ds"]) simp
  qed
qed

lemma rate_limit_iff:
  assumes "\<not> (\<exists>t. last_alert_time s symbol = Some t \<and> now - t < alert_cooldown)"
    and "\<bar>d\<bar> > threshold s"
  shows "validate_alert_conditions s now symbol d =
     (if 5 \<le> length (filter (\<lambda>r. ar_symbol r = symbol \<and> now - hours 1 < ar_timestamp r)
                       (alert_history s))
      then (False, ''rate_limit'') else (True, ''valid''))"
  using assms
  by (auto simp: validate_alert_conditions_def recent_alerts_def split: option.splits)

lemma not_rate_limit:
  assumes "length (recent_alerts s now symbol) \<le> 4"
  shows "validate_alert_conditions s now symbol d \<noteq> (False, ''rate_limit'')"
  using assms by (auto simp: validate_alert_conditions_def split: option.splits)

lemma sixth_suppressed:
  assumes cs: "length cs = 5" "\<forall>c \<in> set cs. arg_symbol c = symbol \<and> now - hours 1 < t_send c"
    and sent: "length (alert_history (send_alerts s cs)) = length (alert_history s) + 5"
    and ok: "\<not> (\<exists>t. last_alert_time (send_alerts s cs) symbol = Some t \<and> now - t < alert_cooldown)"
      "\<bar>d\<bar> > threshold (send_alerts s cs)"
  shows "validate_alert_conditions (send_alerts s cs) now symbol d = (False, ''rate_limit'')"
proof -
  from send_alerts_history [of s cs] obtain ds where
    ds: "alert_history (send_alerts s cs) = alert_history s @ map alert_row ds"
        "length ds = length cs \<longrightarrow> ds = cs"
    by blast
  from ds(1) sent cs(1) have "ds = cs" using ds(2) by simp
  have "filter (\<lambda>r. ar_symbol r = symbol \<and> now - hours 1 < ar_timestamp r) (map alert_row cs) =
        map alert_row cs"
    using cs(2) by (auto simp: filter_id_conv alert_row_def)
  then have "5 \<le> length (filter (\<lambda>r. ar_symbol r = symbol \<and> now - hours 1 < ar_timestamp r)
                 (alert_history (send_alerts s cs)))"
    using ds(1) \<open>ds = cs\<close> cs(1) by simp
  with rate_limit_iff [OF ok] show ?thesis by simp
qed

lemma fifth_admitted:
  assumes "recent_alerts s now symbol = []" "length cs \<le> 4"
  shows "validate_alert_conditions (send_alerts s cs) now symbol d \<noteq> (False, ''rate_limit'')"
proof -
  from send_alerts_history [of s cs] obtain ds where
    ds: "alert_history (send_alerts s cs) = alert_history s @ map alert_row ds"
        "length ds \<le> length cs"
    by blast
  have "length (recent_alerts (send_alerts s cs) now symbol) \<le> length (map alert_row ds)"
    using assms(1) unfolding recent_alerts_def ds(1) filter_append by simp
  with ds(2) assms(2) have "length (recent_alerts (send_alerts s cs) now symbol) \<le> 4" by simp
  then show ?thesis by (rule not_rate_limit)
qed

text \<open>
  Claim C8. For an attempt that passes the cooldown and threshold checks: it is rejected
  with reason rate-limit when 5 or more stored alerts of the symbol have a timestamp
  within the trailing hour (later than one hour before the attempt), and it is admitted
  when there are at most 4. So after five alerts of one symbol sent within the hour,
  the sixth attempt that passes the other checks is rejected with reason rate-limit;
  and after at most four calls, starting with no stored alert of the symbol within the
  hour, an attempt is never rejected with reason rate-limit.
\<close>

theorem rate_limit_fifth_and_sixth:
  "(\<not> (\<exists>t. last_alert_time s symbol = Some t \<and> now - t < alert_cooldown) \<and> \<bar>d\<bar> > threshold s \<longrightarrow>
      validate_alert_conditions s now symbol d =
        (if 5 \<le> length (filter (\<lambda>r. ar_symbol r = symbol \<and> now - hours 1 < ar_timestamp r)
                          (alert_history s))
         then (False, ''rate_limit'') else (True, ''valid''))) \<and>
   (length cs = 5 \<and> (\<forall>c \<in> set cs. arg_symbol c = symbol \<and> now - hours 1 < t_send c) \<and>
    length (alert_history (send_alerts s cs)) = length (alert_history s) + 5 \<and>
    \<not> (\<exists>t. last_alert_time (send_alerts s cs) symbol = Some t \<and> now - t < alert_cooldown) \<and>
    \<bar>d\<bar> > threshold (send_alerts s cs) \<longrightarrow>
      validate_alert_conditions (send_alerts s cs) now symbol d = (False, ''rate_limit'')) \<and>
   (recent_alerts s now symbol = [] \<and> length cs' \<le> 4 \<longrightarrow>
      validate_alert_conditions (send_alerts s cs') now symbol d \<noteq> (False, ''rate_limit''))"
  using rate_limit_iff [of s symbol now d] sixth_suppressed [of cs symbol now s d]
    fifth_admitted [of s now symbol cs' d]
  by blast

theorem rate_limit_fifth_and_sixth_witness:
  "length ex_five_calls = 5 \<and>
   length (alert_history (send_alerts ex_idle ex_five_calls)) = length (alert_history ex_idle) + 5 \<and>
   \<bar>8 / 10\<bar> > threshold (send_alerts ex_idle ex_five_calls) \<and>
   validate_alert_conditions (send_alerts ex_idle ex_five_calls) (minutes 50) ''XYZ'' (8 / 10) =
     (False, ''rate_limit'') \<and>
   recent_alerts ex_idle (minutes 50) ''XYZ'' = [] \<and>
   length (take 4 ex_five_calls) \<le> 4 \<and>
   validate_alert_conditions (send_alerts ex_idle (take 4 ex_five_calls)) (minutes 50) ''XYZ''
     (8 / 10) = (True, ''valid'')"
proof -
  have five: "length ex_five_calls = 5"
    by (simp add: ex_five_calls_def)
  have recent: "\<forall>c \<in> set ex_five_calls. arg_symbol c = ''XYZ'' \<and> minutes 50 - hours 1 < t_send c"
    by (simp add: ex_five_calls_def ex_call_def hours_def minutes_def seconds_def)
  have run: "send_alerts ex_idle ex_five_calls =
      \<lparr>threshold = 1 / 2, alert_history = map alert_row ex_five_calls,
       last_alert_time = [''XYZ'' \<mapsto> minutes 40]\<rparr>"
    by (simp add: ex_idle_def ex_five_calls_def alert_eval)
  have sent: "length (alert_history (send_alerts ex_idle ex_five_calls)) =
      length (alert_history ex_idle) + 5"
    unfolding run by (simp add: ex_idle_def new_alert_system_def five)
  have cool: "\<not> (\<exists>t. last_alert_time (send_alerts ex_idle ex_five_calls) ''XYZ'' = Some t \<and>
      minutes 50 - t < alert_cooldown)"
    unfolding run by (simp add: alert_cooldown_def minutes_def seconds_def)
  have thr: "\<bar>8 / 10\<bar> > threshold (send_alerts ex_idle ex_five_calls)"
    unfolding run by simp
  have none: "recent_alerts ex_idle (minutes 50) ''XYZ'' = []"
    by (simp add: ex_idle_def new_alert_system_def recent_alerts_def)
  have four: "length (take 4 ex_five_calls) \<le> 4"
    by simp
  have fifth: "validate_alert_conditions (send_alerts ex_idle (take 4 ex_five_calls)) (minutes 50)
      ''XYZ'' (8 / 10) = (True, ''valid'')"
    by (simp add: ex_idle_def ex_five_calls_def alert_eval)
  from rate_limit_fifth_and_sixth [of ex_idle "''XYZ''" "minutes 50" "8 / 10" ex_five_calls
      "take 4 ex_five_calls"] five recent sent cool thr none four
  have "validate_alert_conditions (send_alerts ex_idle ex_five_calls) (minutes 50) ''XYZ'' (8 / 10) =
      (False, ''rate_limit'') \<and>
    validate_alert_conditions (send_alerts ex_idle (take 4 ex_five_calls)) (minutes 50) ''XYZ''
      (8 / 10) \<noteq> (False, ''rate_limit'')"
    by blast
  with five sent thr none four fifth show ?thesis by blast
qed

section \<open>Properties of the data fetcher\<close>

subsection \<open>Price validation\<close>

text \<open>
  Claim C2. The validation rejects a raw value exactly when it is missing, not a
  number, not finite, zero or negative, and returns every positive finite value as the
  accepted price; it is a total function of its argument, so it raises nothing and
  changes no state. At the call sites: a live Alpha Vantage fetch (no entry in
  \<^verbatim>\<open>last_fetch_time\<close> for the symbol) yields what the validation yields for the quote's
  price field, and a Yahoo Finance fetch what it yields for the last closing price.
\<close>

theorem validate_price_rejects:
  "(validate_price raw = None \<longleftrightarrow>
      raw = Missing \<or> raw = NonNumeric \<or> raw = Num PosInf \<or> raw = Num NegInf \<or> raw = Num NaN \<or>
      (\<exists>x. raw = Num (Finite x) \<and> x \<le> 0)) \<and>
   (0 < x \<longrightarrow> validate_price (Num (Finite x)) = Some x) \<and>
   (last_fetch_time st symbol = None \<longrightarrow>
      fst (get_alpha_vantage_data st now (AVQuote raw) symbol) = validate_price raw) \<and>
   (closes \<noteq> [] \<longrightarrow>
      fst (get_yahoo_finance_data st (YFCloses closes) symbol) = validate_price (Num (last closes)))"
proof (intro conjI impI)
  show "validate_price raw = None \<longleftrightarrow>
      raw = Missing \<or> raw = NonNumeric \<or> raw = Num PosInf \<or> raw = Num NegInf \<or> raw = Num NaN \<or>
      (\<exists>x. raw = Num (Finite x) \<and> x \<le> 0)"
    by (cases raw rule: validate_price.cases) auto
next
  assume "0 < x"
  then show "validate_price (Num (Finite x)) = Some x" by simp
next
  assume "last_fetch_time st symbol = None"
  then show "fst (get_alpha_vantage_data st now (AVQuote raw) symbol) = validate_price raw"
    by (cases raw rule: validate_price.cases) (simp_all add: get_alpha_vantage_data_def)
next
  assume "closes \<noteq> []"
  then show "fst (get_yahoo_finance_data st (YFCloses closes) symbol) =
      validate_price (Num (last closes))"
    by (simp add: get_yahoo_finance_data_def)
qed

theorem validate_price_rejects_witness:
  "0 < (100 :: real) \<and> validate_price (Num (Finite 100)) = Some 100 \<and>
   validate_price (Num (Finite 0)) = None \<and>
   last_fetch_time new_data_fetcher ''AAPL'' = None \<and>
   fst (get_alpha_vantage_data new_data_fetcher 0 (AVQuote (Num (Finite 100))) ''AAPL'') = Some 100 \<and>
   [Finite 99, NaN] \<noteq> [] \<and>
   fst (get_yahoo_finance_data new_data_fetcher (YFCloses [Finite 99, NaN]) ''AAPL'') = None"
  using validate_price_rejects [of "Num (Finite 100)" 100 new_data_fetcher "''AAPL''" 0
      "[Finite 99, NaN]"]
    validate_price_rejects [of "Num (Finite 0)" 100 new_data_fetcher "''AAPL''" 0 "[Finite 99, NaN]"]
  by (simp add: new_data_fetcher_def)

subsection \<open>The 12-second cache\<close>

lemma last_filter_last:
  assumes "xs \<noteq> []" and "P (last xs)"
  shows "last (filter P xs) = last xs"
  using assms by (cases xs rule: rev_cases) simp_all

text \<open>
  Claim C1, as stated: within 12 seconds of the symbol's last successful fetch both
  sources skip their provider and return the price stored for them in the symbol's
  last row. It fails for Yahoo Finance, whose fetch has no cache: one second after
  AAPL was fetched, with 101 stored as its Yahoo Finance price, the Yahoo Finance fetch
  calls the provider and returns the fresh price 105. It also fails for Alpha Vantage
  when the last row of the history belongs to another symbol: with a row of AAPL
  (Alpha Vantage 100) followed by a row of MSFT (Alpha Vantage 250), the cached fetch
  for AAPL returns 250.
\<close>

theorem cache_hit_counterexample:
  "last_fetch_time ex_fetched ''AAPL'' = Some 0 \<and> seconds 1 - 0 < seconds 12 \<and>
   map cr_yahoo (filter (\<lambda>r. cr_symbol r = ''AAPL'') (price_history ex_fetched)) = [101] \<and>
   get_yahoo_finance_data ex_fetched (YFCloses [Finite 105]) ''AAPL'' =
     (Some 105, [YahooFinanceCall ''AAPL'']) \<and>
   last_fetch_time ex_interleaved ''AAPL'' = Some 0 \<and>
   map cr_alpha (filter (\<lambda>r. cr_symbol r = ''AAPL'') (price_history ex_interleaved)) = [100] \<and>
   get_alpha_vantage_data ex_interleaved (seconds 1) AVRaises ''AAPL'' =
     (Some 250, ex_interleaved, [])"
  by (simp add: ex_fetched_def ex_interleaved_def ex_row_def ex_other_row_def seconds_def
      get_yahoo_finance_data_def get_alpha_vantage_data_def)

text \<open>
  Claim C1, amended. Whenever less than 12 seconds have passed since the symbol's
  entry in \<^verbatim>\<open>last_fetch_time\<close>, the Alpha Vantage fetch calls no provider and changes
  no state, in every state; it fails (null) when the history is empty, and it returns
  the Alpha Vantage price of the symbol's last stored row when the last row of the
  history is a row of that symbol. The Yahoo Finance fetch has no cache: it calls its
  provider in every state and returns the validated last closing price.
\<close>

theorem cache_hit_alpha_only:
  "(last_fetch_time st symbol = Some t \<and> now - t < seconds 12 \<longrightarrow>
      snd (snd (get_alpha_vantage_data st now reply symbol)) = [] \<and>
      fst (snd (get_alpha_vantage_data st now reply symbol)) = st \<and>
      (price_history st = [] \<longrightarrow> fst (get_alpha_vantage_data st now reply symbol) = None) \<and>
      (price_history st \<noteq> [] \<and> cr_symbol (last (price_history st)) = symbol \<longrightarrow>
         fst (get_alpha_vantage_data st now reply symbol) =
           Some (cr_alpha (last (filter (\<lambda>r. cr_symbol r = symbol) (price_history st)))))) \<and>
   snd (get_yahoo_finance_data st yreply symbol) = [YahooFinanceCall symbol] \<and>
   (closes \<noteq> [] \<longrightarrow>
      get_yahoo_finance_data st (YFCloses closes) symbol =
        (validate_price (Num (last closes)), [YahooFinanceCall symbol]))"
proof (intro conjI impI)
  assume hit: "last_fetch_time st symbol = Some t \<and> now - t < seconds 12"
  then show "snd (snd (get_alpha_vantage_data st now reply symbol)) = []"
    by (simp add: get_alpha_vantage_data_def split: list.splits)
  from hit show "fst (snd (get_alpha_vantage_data st now reply symbol)) = st"
    by (simp add: get_alpha_vantage_data_def split: list.splits)
  {
    assume "price_history st = []"
    with hit show "fst (get_alpha_vantage_data st now reply symbol) = None"
      by (simp add: get_alpha_vantage_data_def)
  }
  {
    assume row: "price_history st \<noteq> [] \<and> cr_symbol (last (price_history st)) = symbol"
    then have "last (filter (\<lambda>r. cr_symbol r = symbol) (price_history st)) =
        last (price_history st)"
      by (simp add: last_filter_last)
    with hit row show "fst (get_alpha_vantage_data st now reply symbol) =
        Some (cr_alpha (last (filter (\<lambda>r. cr_symbol r = symbol) (price_history st))))"
      by (simp add: get_alpha_vantage_data_def split: list.splits)
  }
next
  show "snd (get_yahoo_finance_data st yreply symbol) = [YahooFinanceCall symbol]"
    by (simp add: get_yahoo_finance_data_def split: yf_reply.splits)
next
  assume "closes \<noteq> []"
  then show "get_yahoo_finance_data st (YFCloses closes) symbol =
      (validate_price (Num (last closes)), [YahooFinanceCall symbol])"
    by (simp add: get_yahoo_finance_data_def)
qed

theorem cache_hit_alpha_only_witness:
  "last_fetch_time ex_fetched ''AAPL'' = Some 0 \<and> seconds 1 - 0 < seconds 12 \<and>
   price_history ex_fetched \<noteq> [] \<and> cr_symbol (last (price_history ex_fetched)) = ''AAPL'' \<and>
   get_alpha_vantage_data ex_fetched (seconds 1) AVRaises ''AAPL'' = (Some 100, ex_fetched, []) \<and>
   last_fetch_time (ex_fetched\<lparr>price_history := []\<rparr>) ''AAPL'' = Some 0 \<and>
   price_history (ex_fetched\<lparr>price_history := []\<rparr>) = [] \<and>
   get_alpha_vantage_data (ex_fetched\<lparr>price_history := []\<rparr>) (seconds 1) AVRaises ''AAPL'' =
     (None, ex_fetched\<lparr>price_history := []\<rparr>, []) \<and>
   last_fetch_time ex_interleaved ''AAPL'' = Some 0 \<and>
   snd (snd (get_alpha_vantage_data ex_interleaved (seconds 1) AVRaises ''AAPL'')) = [] \<and>
   fst (snd (get_alpha_vantage_data ex_interleaved (seconds 1) AVRaises ''AAPL'')) =
     ex_interleaved \<and>
   [Finite 105] \<noteq> [] \<and>
   get_yahoo_finance_data ex_fetched (YFCloses [Finite 105]) ''AAPL'' =
     (Some 105, [YahooFinanceCall ''AAPL''])"
proof -
  have hit: "last_fetch_time ex_fetched ''AAPL'' = Some 0 \<and> seconds 1 - 0 < seconds 12"
    "last_fetch_time (ex_fetched\<lparr>price_history := []\<rparr>) ''AAPL'' = Some 0 \<and>
     seconds 1 - 0 < seconds 12"
    "last_fetch_time ex_interleaved ''AAPL'' = Some 0 \<and> seconds 1 - 0 < seconds 12"
    by (simp_all add: ex_fetched_def ex_interleaved_def seconds_def)
  have rows: "price_history ex_fetched \<noteq> [] \<and> cr_symbol (last (price_history ex_fetched)) = ''AAPL''"
    "price_history (ex_fetched\<lparr>price_history := []\<rparr>) = []"
    by (simp_all add: ex_fetched_def ex_row_def)
  have stored: "cr_alpha (last (filter (\<lambda>r. cr_symbol r = ''AAPL'') (price_history ex_fetched))) = 100"
    by (simp add: ex_fetched_def ex_row_def)
  have fresh: "validate_price (Num (last [Finite 105])) = Some 105"
    by simp
  note one = cache_hit_alpha_only [of ex_fetched "''AAPL''" 0 "seconds 1" AVRaises YFRaises
      "[Finite 105]"]
  note two = cache_hit_alpha_only [of "ex_fetched\<lparr>price_history := []\<rparr>" "''AAPL''" 0 "seconds 1"
      AVRaises YFRaises "[Finite 105]"]
  note three = cache_hit_alpha_only [of ex_interleaved "''AAPL''" 0 "seconds 1" AVRaises YFRaises
      "[Finite 105]"]
  from one hit(1) rows(1)
  have a: "get_alpha_vantage_data ex_fetched (seconds 1) AVRaises ''AAPL'' = (Some 100, ex_fetched, [])"
    unfolding stored by (simp add: prod_eq_iff)
  from two hit(2) rows(2)
  have b: "get_alpha_vantage_data (ex_fetched\<lparr>price_history := []\<rparr>) (seconds 1) AVRaises ''AAPL'' =
      (None, ex_fetched\<lparr>price_history := []\<rparr>, [])"
    by (simp add: prod_eq_iff)
  from three hit(3)
  have c: "snd (snd (get_alpha_vantage_data ex_interleaved (seconds 1) AVRaises ''AAPL'')) = [] \<and>
      fst (snd (get_alpha_vantage_data ex_interleaved (seconds 1) AVRaises ''AAPL'')) =
        ex_interleaved"
    by blast
  from one have d: "get_yahoo_finance_data ex_fetched (YFCloses [Finite 105]) ''AAPL'' =
      (Some 105, [YahooFinanceCall ''AAPL''])"
    unfolding fresh by simp
  from hit rows a b c d show ?thesis by simp
qed

subsection \<open>Cross-validation\<close>

lemma tail_eq_Nil: "0 < n \<Longrightarrow> tail n xs = [] \<longleftrightarrow> xs = []"
  by (cases xs) (auto simp: tail_def)

lemma set_tail: "set (tail n xs) \<subseteq> set xs"
  by (simp add: tail_def set_drop_subset)

lemma length_tail_min: "length (tail n xs) = min n (length xs)"
  by (simp add: tail_def)

lemma sum_list_positive:
  fixes xs :: "real list"
  assumes "xs \<noteq> []" and "\<forall>x \<in> set xs. 0 < x"
  shows "0 < sum_list xs"
  using assms by (induction xs) (auto intro: add_pos_nonneg sum_list_nonneg less_imp_le)

lemma mean_positive:
  assumes "xs \<noteq> []" and "\<forall>x \<in> set xs. 0 < x"
  shows "0 < mean xs"
  using sum_list_positive [OF assms] assms(1) by (simp add: mean_def)

lemma recent_averages_positive:
  assumes "positive_history st"
    and "filter (\<lambda>r. cr_symbol r = symbol) (price_history st) \<noteq> []"
  shows "0 < mean (map cr_alpha (tail 5 (filter (\<lambda>r. cr_symbol r = symbol) (price_history st))))"
    and "0 < mean (map cr_yahoo (tail 5 (filter (\<lambda>r. cr_symbol r = symbol) (price_history st))))"
proof -
  let ?rows = "tail 5 (filter (\<lambda>r. cr_symbol r = symbol) (price_history st))"
  have ne: "?rows \<noteq> []" using assms(2) by (simp add: tail_eq_Nil)
  have "set ?rows \<subseteq> set (price_history st)"
    using set_tail [of 5 "filter (\<lambda>r. cr_symbol r = symbol) (price_history st)"] by auto
  with assms(1) have pos: "\<forall>r \<in> set ?rows. 0 < cr_alpha r \<and> 0 < cr_yahoo r"
    by (auto simp: positive_history_def)
  show "0 < mean (map cr_alpha ?rows)"
    using ne pos by (intro mean_positive) auto
  show "0 < mean (map cr_yahoo ?rows)"
    using ne pos by (intro mean_positive) auto
qed

lemma cross_validate_small_spread:
  "\<bar>a - y\<bar> / min a y \<le> 2 / 10 \<Longrightarrow> cross_validate_prices st a y symbol"
  by (simp add: cross_validate_prices_def)

lemma cross_validate_no_history:
  "filter (\<lambda>r. cr_symbol r = symbol) (price_history st) = [] \<Longrightarrow>
   cross_validate_prices st a y symbol"
  by (simp add: cross_validate_prices_def tail_def)

lemma cross_validate_large_spread:
  assumes "\<bar>a - y\<bar> / min a y > 2 / 10"
    and "filter (\<lambda>r. cr_symbol r = symbol) (price_history st) \<noteq> []"
  shows "cross_validate_prices st a y symbol \<longleftrightarrow>
     \<not> (\<bar>a - mean (map cr_alpha (tail 5 (filter (\<lambda>r. cr_symbol r = symbol) (price_history st))))\<bar> /
          mean (map cr_alpha (tail 5 (filter (\<lambda>r. cr_symbol r = symbol) (price_history st)))) > 1 / 10 \<or>
        \<bar>y - mean (map cr_yahoo (tail 5 (filter (\<lambda>r. cr_symbol r = symbol) (price_history st))))\<bar> /
          mean (map cr_yahoo (tail 5 (filter (\<lambda>r. cr_symbol r = symbol) (price_history st)))) > 1 / 10)"
proof -
  from assms(2) have "price_history st \<noteq> []" by auto
  moreover from assms(2)
  have "tail 5 (filter (\<lambda>r. cr_symbol r = symbol) (price_history st)) \<noteq> []"
    by (simp add: tail_eq_Nil)
  ultimately show ?thesis
    using assms(1) by (simp add: cross_validate_prices_def Let_def)
qed

text \<open>
  Claim C6. For positive prices: the pair is accepted whenever the relative spread
  \<open>|a - y| / min a y\<close> is at most 0.20, whatever the history; with a larger spread it
  is accepted when the history has no row for the symbol; with a larger spread and at
  least one row for the symbol, in a history of positive prices, take the symbol's
  last \<open>min 5 count\<close> rows and the arithmetic means of their two price columns:
  both means are positive, and the pair is rejected exactly when the Alpha Vantage
  price deviates from its mean by more than 0.10 of it or the Yahoo Finance price from
  its mean by more than 0.10 of it.
\<close>

theorem cross_validation_decision:
  "0 < a \<and> 0 < y \<longrightarrow>
     (\<bar>a - y\<bar> / min a y \<le> 2 / 10 \<longrightarrow> cross_validate_prices st a y symbol) \<and>
     (\<bar>a - y\<bar> / min a y > 2 / 10 \<and>
      filter (\<lambda>r. cr_symbol r = symbol) (price_history st) = [] \<longrightarrow>
        cross_validate_prices st a y symbol) \<and>
     (\<bar>a - y\<bar> / min a y > 2 / 10 \<and>
      filter (\<lambda>r. cr_symbol r = symbol) (price_history st) \<noteq> [] \<and> positive_history st \<and>
      rows = drop (length (filter (\<lambda>r. cr_symbol r = symbol) (price_history st)) - 5)
               (filter (\<lambda>r. cr_symbol r = symbol) (price_history st)) \<and>
      avg_a = sum_list (map cr_alpha rows) / real (length rows) \<and>
      avg_y = sum_list (map cr_yahoo rows) / real (length rows) \<longrightarrow>
        length rows = min 5 (length (filter (\<lambda>r. cr_symbol r = symbol) (price_history st))) \<and>
        0 < avg_a \<and> 0 < avg_y \<and>
        (\<not> cross_validate_prices st a y symbol \<longleftrightarrow>
           \<bar>a - avg_a\<bar> / avg_a > 1 / 10 \<or> \<bar>y - avg_y\<bar> / avg_y > 1 / 10))"
proof (intro impI conjI)
  assume "\<bar>a - y\<bar> / min a y \<le> 2 / 10"
  then show "cross_validate_prices st a y symbol"
    by (rule cross_validate_small_spread)
next
  assume "\<bar>a - y\<bar> / min a y > 2 / 10 \<and>
      filter (\<lambda>r. cr_symbol r = symbol) (price_history st) = []"
  then show "cross_validate_prices st a y symbol"
    using cross_validate_no_history [of symbol st a y] by blast
next
  assume h: "\<bar>a - y\<bar> / min a y > 2 / 10 \<and>
      filter (\<lambda>r. cr_symbol r = symbol) (price_history st) \<noteq> [] \<and> positive_history st \<and>
      rows = drop (length (filter (\<lambda>r. cr_symbol r = symbol) (price_history st)) - 5)
               (filter (\<lambda>r. cr_symbol r = symbol) (price_history st)) \<and>
      avg_a = sum_list (map cr_alpha rows) / real (length rows) \<and>
      avg_y = sum_list (map cr_yahoo rows) / real (length rows)"
  then have rows: "rows = tail 5 (filter (\<lambda>r. cr_symbol r = symbol) (price_history st))"
    by (simp add: tail_def)
  from h have avg: "avg_a = mean (map cr_alpha rows)" "avg_y = mean (map cr_yahoo rows)"
    by (simp_all add: mean_def)
  show "length rows = min 5 (length (filter (\<lambda>r. cr_symbol r = symbol) (price_history st)))"
    unfolding rows by (simp add: length_tail_min)
  from h recent_averages_positive [of st symbol] show "0 < avg_a" "0 < avg_y"
    unfolding avg rows by blast+
  from h cross_validate_large_spread [of a y symbol st]
  show "\<not> cross_validate_prices st a y symbol \<longleftrightarrow>
      \<bar>a - avg_a\<bar> / avg_a > 1 / 10 \<or> \<bar>y - avg_y\<bar> / avg_y > 1 / 10"
    unfolding avg rows by blast
qed

theorem cross_validation_decision_witness:
  "0 < (100 :: real) \<and> 0 < (125 :: real) \<and> 0 < (140 :: real) \<and> positive_history ex_windowed \<and>
   map cr_symbol (price_history ex_windowed) =
     [''XYZ'', ''AAPL'', ''XYZ'', ''XYZ'', ''XYZ'', ''XYZ'', ''XYZ''] \<and>
   map cr_alpha (drop (length (filter (\<lambda>r. cr_symbol r = ''XYZ'') (price_history ex_windowed)) - 5)
     (filter (\<lambda>r. cr_symbol r = ''XYZ'') (price_history ex_windowed))) = [98, 99, 100, 101, 102] \<and>
   map cr_yahoo (drop (length (filter (\<lambda>r. cr_symbol r = ''XYZ'') (price_history ex_windowed)) - 5)
     (filter (\<lambda>r. cr_symbol r = ''XYZ'') (price_history ex_windowed))) = [123, 124, 125, 126, 127] \<and>
   \<bar>100 - 125\<bar> / min 100 125 > (2 / 10 :: real) \<and>
   cross_validate_prices ex_windowed 100 125 ''XYZ'' \<and>
   \<bar>100 - 140\<bar> / min 100 140 > (2 / 10 :: real) \<and>
   \<not> cross_validate_prices ex_windowed 100 140 ''XYZ'' \<and>
   filter (\<lambda>r. cr_symbol r = ''MSFT'') (price_history ex_windowed) = [] \<and>
   cross_validate_prices ex_windowed 100 140 ''MSFT'' \<and>
   \<bar>100 - 101\<bar> / min 100 101 \<le> (2 / 10 :: real) \<and>
   cross_validate_prices ex_windowed 100 101 ''XYZ''"
proof -
  let ?rows = "drop (length (filter (\<lambda>r. cr_symbol r = ''XYZ'') (price_history ex_windowed)) - 5)
     (filter (\<lambda>r. cr_symbol r = ''XYZ'') (price_history ex_windowed))"
  have pos: "positive_history ex_windowed"
    by (simp add: positive_history_def ex_windowed_def ex_pair_row_def ex_row_def)
  have syms: "map cr_symbol (price_history ex_windowed) =
      [''XYZ'', ''AAPL'', ''XYZ'', ''XYZ'', ''XYZ'', ''XYZ'', ''XYZ'']"
    by (simp add: ex_windowed_def ex_pair_row_def ex_row_def)
  have rows: "?rows = [ex_pair_row ''XYZ'' 98 123, ex_pair_row ''XYZ'' 99 124,
      ex_pair_row ''XYZ'' 100 125, ex_pair_row ''XYZ'' 101 126, ex_pair_row ''XYZ'' 102 127]"
    by (simp add: ex_windowed_def ex_pair_row_def ex_row_def)
  have cols: "map cr_alpha ?rows = [98, 99, 100, 101, 102]"
    "map cr_yahoo ?rows = [123, 124, 125, 126, 127]"
    unfolding rows by (simp_all add: ex_pair_row_def)
  have avg: "sum_list (map cr_alpha ?rows) / real (length ?rows) = 100"
    "sum_list (map cr_yahoo ?rows) / real (length ?rows) = 125"
    unfolding cols by (simp_all add: rows)
  have some: "filter (\<lambda>r. cr_symbol r = ''XYZ'') (price_history ex_windowed) \<noteq> []"
    by (simp add: ex_windowed_def ex_pair_row_def)
  have none: "filter (\<lambda>r. cr_symbol r = ''MSFT'') (price_history ex_windowed) = []"
    by (simp add: ex_windowed_def ex_pair_row_def ex_row_def)
  have spread: "\<bar>100 - 125\<bar> / min 100 125 > (2 / 10 :: real)"
    "\<bar>100 - 140\<bar> / min 100 140 > (2 / 10 :: real)"
    "\<bar>100 - 101\<bar> / min 100 101 \<le> (2 / 10 :: real)"
    by simp_all
  have dev: "\<not> (\<bar>100 - 100\<bar> / 100 > (1 / 10 :: real) \<or> \<bar>125 - 125\<bar> / 125 > (1 / 10 :: real))"
    "\<bar>100 - 100\<bar> / 100 > (1 / 10 :: real) \<or> \<bar>140 - 125\<bar> / 125 > (1 / 10 :: real)"
    by simp_all
  from cross_validation_decision [of 100 125 ex_windowed "''XYZ''" ?rows 100 125]
    pos some spread(1) avg dev(1)
  have accept: "cross_validate_prices ex_windowed 100 125 ''XYZ''"
    by simp
  from cross_validation_decision [of 100 140 ex_windowed "''XYZ''" ?rows 100 125]
    pos some spread(2) avg dev(2)
  have reject: "\<not> cross_validate_prices ex_windowed 100 140 ''XYZ''"
    by simp
  from cross_validation_decision [of 100 140 ex_windowed "''MSFT''" ?rows 100 125] spread(2) none
  have fresh: "cross_validate_prices ex_windowed 100 140 ''MSFT''"
    by simp
  from cross_validation_decision [of 100 101 ex_windowed "''XYZ''" ?rows 100 125] spread(3)
  have small: "cross_validate_prices ex_windowed 100 101 ''XYZ''"
    by simp
  from pos syms cols spread accept reject none fresh small show ?thesis by simp
qed

subsection \<open>Analytics\<close>

lemma last_rolling_mean:
  assumes "xs \<noteq> []"
  shows "last (rolling_mean w xs) = mean (tail w xs)"
proof -
  from assms have "[0..<length xs] \<noteq> []" by simp
  then have "last (rolling_mean w xs) = mean (tail w (take (Suc (last [0..<length xs])) xs))"
    unfolding rolling_mean_def by (rule last_map)
  also from assms have "Suc (last [0..<length xs]) = length xs" by simp
  finally show ?thesis by simp
qed

lemma mean_tail:
  "mean (tail w xs) = sum_list (drop (length xs - min w (length xs)) xs) / real (min w (length xs))"
proof -
  have "length xs - min w (length xs) = length xs - w" by simp
  moreover have "length (drop (length xs - w) xs) = min w (length xs)" by simp
  ultimately show ?thesis unfolding mean_def tail_def by (simp del: length_drop)
qed

lemma is_monotonic_increasing_sorted: "is_monotonic_increasing xs \<longleftrightarrow> sorted xs"
  by (induction xs rule: is_monotonic_increasing.induct) fastforce+

lemma is_monotonic_decreasing_sorted: "is_monotonic_decreasing xs \<longleftrightarrow> sorted (rev xs)"
  by (induction xs rule: is_monotonic_decreasing.induct) (fastforce simp: sorted_append)+

lemma analytics_of_two_or_more:
  assumes "2 \<le> length (filter (\<lambda>r. cr_symbol r = symbol) (price_history st))"
  shows "calculate_analytics st symbol =
     \<lparr>moving_average = Some (mean (tail 5 (map cr_difference
          (filter (\<lambda>r. cr_symbol r = symbol) (price_history st))))),
      volatility = Some (std (map cr_difference
          (filter (\<lambda>r. cr_symbol r = symbol) (price_history st)))),
      trend = Some
        (if sorted (tail 5 (map cr_difference
              (filter (\<lambda>r. cr_symbol r = symbol) (price_history st))))
         then ''increasing''
         else if sorted (rev (tail 5 (map cr_difference
              (filter (\<lambda>r. cr_symbol r = symbol) (price_history st)))))
         then ''decreasing'' else ''fluctuating'')\<rparr>"
proof -
  have "length (filter (\<lambda>r. cr_symbol r = symbol) (price_history st)) \<le> length (price_history st)"
    by simp
  with assms have long: "\<not> length (price_history st) < 2" by linarith
  from assms have ne: "map cr_difference (filter (\<lambda>r. cr_symbol r = symbol) (price_history st)) \<noteq> []"
    by auto
  show ?thesis
    using assms long
    by (simp add: calculate_analytics_def Let_def last_rolling_mean [OF ne]
        is_monotonic_increasing_sorted is_monotonic_decreasing_sorted)
qed

lemma analytics_of_fewer_than_two:
  assumes "length (filter (\<lambda>r. cr_symbol r = symbol) (price_history st)) < 2"
  shows "calculate_analytics st symbol = no_analytics"
  using assms by (simp add: calculate_analytics_def Let_def)

text \<open>
  Claim C7. With at least 2 rows for the symbol, the moving average is the arithmetic
  mean of the symbol's last \<open>min 5 count\<close> discrepancy values, the volatility is the
  standard deviation of all the symbol's discrepancy values with divisor \<open>N - 1\<close>, and
  the trend is increasing when the last up to 5 values never decrease (also when they
  are all equal), else decreasing when they never increase, else fluctuating. With
  fewer than 2 rows for the symbol the three outputs are null. Over the discrepancies
  1, 2, 3, 4, 5, 6 the moving average is 4.
\<close>

theorem analytics_values:
  "(2 \<le> length (filter (\<lambda>r. cr_symbol r = symbol) (price_history st)) \<and>
    ds = map cr_difference (filter (\<lambda>r. cr_symbol r = symbol) (price_history st)) \<longrightarrow>
      moving_average (calculate_analytics st symbol) =
        Some (sum_list (drop (length ds - min 5 (length ds)) ds) /
              real (min 5 (length ds))) \<and>
      volatility (calculate_analytics st symbol) =
        Some (sqrt (sum_list (map (\<lambda>x. (x - sum_list ds / real (length ds))\<^sup>2) ds) /
                    (real (length ds) - 1))) \<and>
      trend (calculate_analytics st symbol) =
        Some (if sorted (drop (length ds - 5) ds) then ''increasing''
              else if sorted (rev (drop (length ds - 5) ds)) then ''decreasing''
              else ''fluctuating'')) \<and>
   (length (filter (\<lambda>r. cr_symbol r = symbol) (price_history st)) < 2 \<longrightarrow>
      moving_average (calculate_analytics st symbol) = None \<and>
      volatility (calculate_analytics st symbol) = None \<and>
      trend (calculate_analytics st symbol) = None) \<and>
   moving_average (calculate_analytics ex_six ''XYZ'') = Some 4"
proof (intro conjI impI)
  assume a: "2 \<le> length (filter (\<lambda>r. cr_symbol r = symbol) (price_history st)) \<and>
    ds = map cr_difference (filter (\<lambda>r. cr_symbol r = symbol) (price_history st))"
  then have an: "calculate_analytics st symbol =
     \<lparr>moving_average = Some (mean (tail 5 ds)), volatility = Some (std ds),
      trend = Some (if sorted (tail 5 ds) then ''increasing''
         else if sorted (rev (tail 5 ds)) then ''decreasing'' else ''fluctuating'')\<rparr>"
    using analytics_of_two_or_more [of symbol st] by simp
  show "moving_average (calculate_analytics st symbol) =
        Some (sum_list (drop (length ds - min 5 (length ds)) ds) /
              real (min 5 (length ds)))"
    unfolding an by (simp add: mean_tail)
  show "volatility (calculate_analytics st symbol) =
        Some (sqrt (sum_list (map (\<lambda>x. (x - sum_list ds / real (length ds))\<^sup>2) ds) /
                    (real (length ds) - 1)))"
    unfolding an by (simp add: std_def mean_def)
  show "trend (calculate_analytics st symbol) =
        Some (if sorted (drop (length ds - 5) ds) then ''increasing''
              else if sorted (rev (drop (length ds - 5) ds)) then ''decreasing''
              else ''fluctuating'')"
    unfolding an by (simp add: tail_def)
next
  assume b: "length (filter (\<lambda>r. cr_symbol r = symbol) (price_history st)) < 2"
  from analytics_of_fewer_than_two [OF b]
  show "moving_average (calculate_analytics st symbol) = None"
    "volatility (calculate_analytics st symbol) = None"
    "trend (calculate_analytics st symbol) = None"
    by (simp_all add: no_analytics_def)
next
  have rows: "filter (\<lambda>r. cr_symbol r = ''XYZ'') (price_history ex_six) =
      map ex_diff_row [1, 2, 3, 4, 5, 6]"
    by (simp add: ex_six_def ex_diff_row_def)
  have "2 \<le> length (filter (\<lambda>r. cr_symbol r = ''XYZ'') (price_history ex_six))"
    unfolding rows by simp
  from analytics_of_two_or_more [OF this]
  show "moving_average (calculate_analytics ex_six ''XYZ'') = Some 4"
    unfolding rows by (simp add: ex_diff_row_def tail_def mean_def)
qed

theorem analytics_values_witness:
  "2 \<le> length (filter (\<lambda>r. cr_symbol r = ''XYZ'') (price_history ex_six)) \<and>
   map cr_difference (filter (\<lambda>r. cr_symbol r = ''XYZ'') (price_history ex_six)) =
     [1, 2, 3, 4, 5, 6] \<and>
   moving_average (calculate_analytics ex_six ''XYZ'') = Some 4 \<and>
   volatility (calculate_analytics ex_six ''XYZ'') = Some (sqrt (7 / 2)) \<and>
   trend (calculate_analytics ex_six ''XYZ'') = Some ''increasing'' \<and>
   length (filter (\<lambda>r. cr_symbol r = ''AAPL'') (price_history ex_fetched)) < 2 \<and>
   moving_average (calculate_analytics ex_fetched ''AAPL'') = None \<and>
   volatility (calculate_analytics ex_fetched ''AAPL'') = None \<and>
   trend (calculate_analytics ex_fetched ''AAPL'') = None"
proof -
  have ds: "map cr_difference (filter (\<lambda>r. cr_symbol r = ''XYZ'') (price_history ex_six)) =
      [1, 2, 3, 4, 5, 6]"
    by (simp add: ex_six_def ex_diff_row_def)
  have two: "2 \<le> length (filter (\<lambda>r. cr_symbol r = ''XYZ'') (price_history ex_six))"
    by (simp add: ex_six_def ex_diff_row_def)
  have one: "length (filter (\<lambda>r. cr_symbol r = ''AAPL'') (price_history ex_fetched)) < 2"
    by (simp add: ex_fetched_def)
  have var: "sum_list (map (\<lambda>x. (x - sum_list [1, 2, 3, 4, 5, 6] / real (length [1, 2, 3, 4, 5, 6 :: real]))\<^sup>2)
      [1, 2, 3, 4, 5, 6 :: real]) / (real (length [1, 2, 3, 4, 5, 6 :: real]) - 1) = 7 / 2"
    by (simp add: power2_eq_square)
  from analytics_values [of "''XYZ''" ex_six "[1, 2, 3, 4, 5, 6]"] two ds
  have "moving_average (calculate_analytics ex_six ''XYZ'') = Some 4 \<and>
      volatility (calculate_analytics ex_six ''XYZ'') = Some (sqrt (7 / 2)) \<and>
      trend (calculate_analytics ex_six ''XYZ'') = Some ''increasing''"
    unfolding var by simp
  moreover from analytics_values [of "''AAPL''" ex_fetched "[]"] one
  have "moving_average (calculate_analytics ex_fetched ''AAPL'') = None \<and>
      volatility (calculate_analytics ex_fetched ''AAPL'') = None \<and>
      trend (calculate_analytics ex_fetched ''AAPL'') = None"
    by blast
  ultimately show ?thesis using two ds one by blast
qed

subsection \<open>One reconciliation cycle\<close>

lemma length_tail: "length (tail n xs) = min n (length xs)"
  by (simp add: tail_def)

lemma tail_all: "length xs \<le> n \<Longrightarrow> tail n xs = xs"
  by (simp add: tail_def)

lemma calculate_analytics_history:
  "price_history st' = price_history st \<Longrightarrow>
   calculate_analytics st' symbol = calculate_analytics st symbol"
  by (simp add: calculate_analytics_def)

lemma new_data_history:
  "price_history st' = price_history st \<Longrightarrow>
   new_data st' now symbol a y = new_data st now symbol a y"
  by (simp add: new_data_def calculate_analytics_history [of st' st])

lemma get_alpha_vantage_data_history:
  "price_history (fst (snd (get_alpha_vantage_data st now reply symbol))) = price_history st"
  by (simp add: get_alpha_vantage_data_def split: list.splits av_reply.splits option.splits)

text \<open>
  The two ways a cycle can end: nothing is stored and the result is three nulls, or the
  row built from the two fetched prices is stored, the history is cut to its last 1000
  rows, and the result is not three nulls.
\<close>

lemma get_price_comparison_cases:
  "(fst (get_price_comparison st env symbol) = Inr (None, None, None) \<and>
    price_history (fst (snd (get_price_comparison st env symbol))) = price_history st) \<or>
   (\<exists>a y. fst (get_price_comparison st env symbol) \<noteq> Inr (None, None, None) \<and>
      fst (get_alpha_vantage_data st (fetch_time env) (alpha_vantage env) symbol) = Some a \<and>
      price_history (fst (snd (get_price_comparison st env symbol))) =
        tail 1000 (price_history st @ [new_data st (record_time env) symbol a y]))"
proof -
  obtain alpha st1 calls1 where
    av: "get_alpha_vantage_data st (fetch_time env) (alpha_vantage env) symbol = (alpha, st1, calls1)"
    by (metis prod_cases3)
  obtain yahoo calls2 where
    yf: "get_yahoo_finance_data st1 (yahoo_finance env) symbol = (yahoo, calls2)"
    by (metis surj_pair)
  from av get_alpha_vantage_data_history [of st "fetch_time env" "alpha_vantage env" symbol]
  have h1: "price_history st1 = price_history st" by simp
  show ?thesis
  proof (cases "\<exists>a y. alpha = Some a \<and> yahoo = Some y \<and> cross_validate_prices st1 a y symbol")
    case True
    then obtain a y where
      ok: "alpha = Some a" "yahoo = Some y" "cross_validate_prices st1 a y symbol"
      by blast
    let ?row = "new_data st (record_time env) symbol a y"
    have row: "new_data st1 (record_time env) symbol a y = ?row"
      using h1 by (rule new_data_history)
    have "fst (get_price_comparison st env symbol) \<noteq> Inr (None, None, None)"
      by (simp add: get_price_comparison_def av yf ok Let_def split: option.splits)
    moreover have "price_history (fst (snd (get_price_comparison st env symbol))) =
        tail 1000 (price_history st @ [?row])"
      by (cases "999 < length (price_history st)")
        (simp_all add: get_price_comparison_def av yf ok row h1 Let_def tail_all
          split: option.splits)
    ultimately show ?thesis using av ok(1) by auto
  next
    case False
    then have "get_price_comparison st env symbol = (Inr (None, None, None), st1, calls1 @ calls2)"
      by (auto simp: get_price_comparison_def av yf split: option.splits)
    with h1 show ?thesis by simp
  qed
qed

lemma new_data_fields:
  "cr_symbol (new_data st now symbol a y) = symbol"
  "cr_timestamp (new_data st now symbol a y) = now"
  "cr_alpha (new_data st now symbol a y) = a"
  "cr_yahoo (new_data st now symbol a y) = y"
  "cr_moving_average (new_data st now symbol a y) = moving_average (calculate_analytics st symbol)"
  "cr_volatility (new_data st now symbol a y) = volatility (calculate_analytics st symbol)"
  by (simp_all add: new_data_def)

subsection \<open>The cap of 1000 rows\<close>

lemma cap_step:
  assumes "length (price_history st) \<le> 1000"
  shows "length (price_history (fst (snd (get_price_comparison st env symbol)))) \<le> 1000"
  using get_price_comparison_cases [of st env symbol] assms
  by (auto simp: length_tail)

lemma cap_run:
  "length (price_history st) \<le> 1000 \<Longrightarrow>
   length (price_history (get_price_comparisons st cs)) \<le> 1000"
proof (induction cs arbitrary: st)
  case Nil
  then show ?case by simp
next
  case (Cons c cs)
  obtain env symbol where c: "c = (env, symbol)" by (cases c)
  from Cons.prems have "length (price_history (fst (snd (get_price_comparison st env symbol)))) \<le> 1000"
    by (rule cap_step)
  then show ?case unfolding c by (simp add: Cons.IH)
qed

lemma tail_at_cap:
  assumes "length xs = n" "0 < n"
  shows "tail n (xs @ [x]) = tl xs @ [x]"
  using assms by (cases xs) (simp_all add: tail_def)

text \<open>
  Claim C9. After any sequence of cycles on a new data fetcher the history has at most
  1000 rows, and a cycle takes a history of at most 1000 rows to one of at most 1000
  rows. When the history has exactly 1000 rows, a cycle that stores nothing leaves it
  as it is, and a cycle that stores a row yields the old history without its first
  (oldest) row, in the same order, followed by the new row.
\<close>

theorem history_cap_fifo:
  "length (price_history (get_price_comparisons new_data_fetcher cs)) \<le> 1000 \<and>
   (length (price_history st) \<le> 1000 \<longrightarrow>
      length (price_history (fst (snd (get_price_comparison st env symbol)))) \<le> 1000) \<and>
   (length (price_history st) = 1000 \<longrightarrow>
      (fst (get_price_comparison st env symbol) = Inr (None, None, None) \<longrightarrow>
         price_history (fst (snd (get_price_comparison st env symbol))) = price_history st) \<and>
      (fst (get_price_comparison st env symbol) \<noteq> Inr (None, None, None) \<longrightarrow>
         (\<exists>row. cr_symbol row = symbol \<and> cr_timestamp row = record_time env \<and>
            price_history (fst (snd (get_price_comparison st env symbol))) =
              tl (price_history st) @ [row])))"
proof (intro conjI impI)
  show "length (price_history (get_price_comparisons new_data_fetcher cs)) \<le> 1000"
    by (rule cap_run) (simp add: new_data_fetcher_def)
next
  assume "length (price_history st) \<le> 1000"
  then show "length (price_history (fst (snd (get_price_comparison st env symbol)))) \<le> 1000"
    by (rule cap_step)
next
  assume "length (price_history st) = 1000"
    and "fst (get_price_comparison st env symbol) = Inr (None, None, None)"
  then show "price_history (fst (snd (get_price_comparison st env symbol))) = price_history st"
    using get_price_comparison_cases [of st env symbol] by auto
next
  assume full: "length (price_history st) = 1000"
    and stored: "fst (get_price_comparison st env symbol) \<noteq> Inr (None, None, None)"
  with get_price_comparison_cases [of st env symbol] obtain a y where
    "price_history (fst (snd (get_price_comparison st env symbol))) =
       tail 1000 (price_history st @ [new_data st (record_time env) symbol a y])"
    by auto
  with full have "price_history (fst (snd (get_price_comparison st env symbol))) =
      tl (price_history st) @ [new_data st (record_time env) symbol a y]"
    by (simp add: tail_at_cap)
  then show "\<exists>row. cr_symbol row = symbol \<and> cr_timestamp row = record_time env \<and>
      price_history (fst (snd (get_price_comparison st env symbol))) = tl (price_history st) @ [row]"
    by (intro exI [of _ "new_data st (record_time env) symbol a y"]) (simp add: new_data_fields)
qed

lemma ex_cycle_stores:
  "fst (get_price_comparison ex_full ex_env ''AAPL'') \<noteq> Inr (None, None, None)"
proof -
  have av: "get_alpha_vantage_data ex_full (fetch_time ex_env) (alpha_vantage ex_env) ''AAPL'' =
      (Some 100, ex_full\<lparr>last_fetch_time := [''AAPL'' \<mapsto> 0]\<rparr>, [AlphaVantageCall ''AAPL''])"
    by (simp add: get_alpha_vantage_data_def ex_full_def ex_env_def)
  have yf: "get_yahoo_finance_data (ex_full\<lparr>last_fetch_time := [''AAPL'' \<mapsto> 0]\<rparr>)
      (yahoo_finance ex_env) ''AAPL'' = (Some 101, [YahooFinanceCall ''AAPL''])"
    by (simp add: get_yahoo_finance_data_def ex_env_def)
  have cv: "cross_validate_prices (ex_full\<lparr>last_fetch_time := [''AAPL'' \<mapsto> 0]\<rparr>) 100 101 ''AAPL''"
    by (simp add: cross_validate_prices_def)
  show ?thesis
    by (simp add: get_price_comparison_def av yf cv Let_def split: option.splits)
qed

theorem history_cap_fifo_witness:
  "length (price_history ex_full) = 1000 \<and>
   fst (get_price_comparison ex_full ex_env ''AAPL'') \<noteq> Inr (None, None, None) \<and>
   length (price_history (fst (snd (get_price_comparison ex_full ex_env ''AAPL'')))) = 1000 \<and>
   butlast (price_history (fst (snd (get_price_comparison ex_full ex_env ''AAPL'')))) =
     replicate 999 ex_row \<and>
   cr_symbol (last (price_history (fst (snd (get_price_comparison ex_full ex_env ''AAPL''))))) =
     ''AAPL'' \<and>
   cr_timestamp (last (price_history (fst (snd (get_price_comparison ex_full ex_env ''AAPL''))))) = 1"
proof -
  have full: "length (price_history ex_full) = 1000"
    by (simp add: ex_full_def)
  have rest: "tl (price_history ex_full) = replicate 999 ex_row"
    by (simp add: ex_full_def)
  from history_cap_fifo [of "[]" ex_full ex_env "''AAPL''"] full ex_cycle_stores
  obtain row where row: "cr_symbol row = ''AAPL''" "cr_timestamp row = record_time ex_env"
    "price_history (fst (snd (get_price_comparison ex_full ex_env ''AAPL''))) =
       tl (price_history ex_full) @ [row]"
    by blast
  have "record_time ex_env = 1" by (simp add: ex_env_def)
  with row rest full ex_cycle_stores show ?thesis by simp
qed

subsection \<open>The analytics stored with a row\<close>

lemma get_price_comparison_stores:
  assumes av: "get_alpha_vantage_data st (fetch_time env) (alpha_vantage env) symbol =
      (Some a, st1, calls1)"
    and yf: "fst (get_yahoo_finance_data st1 (yahoo_finance env) symbol) = Some y"
    and cv: "cross_validate_prices st1 a y symbol"
  shows "fst (get_price_comparison st env symbol) \<noteq> Inr (None, None, None)"
    and "price_history (fst (snd (get_price_comparison st env symbol))) =
      tail 1000 (price_history st @ [new_data st (record_time env) symbol a y])"
    and "last_fetch_time (fst (snd (get_price_comparison st env symbol))) = last_fetch_time st1"
proof -
  obtain calls2 where yf': "get_yahoo_finance_data st1 (yahoo_finance env) symbol = (Some y, calls2)"
    using yf by (cases "get_yahoo_finance_data st1 (yahoo_finance env) symbol") simp
  from av get_alpha_vantage_data_history [of st "fetch_time env" "alpha_vantage env" symbol]
  have h1: "price_history st1 = price_history st" by simp
  have row: "new_data st1 (record_time env) symbol a y = new_data st (record_time env) symbol a y"
    using h1 by (rule new_data_history)
  show "fst (get_price_comparison st env symbol) \<noteq> Inr (None, None, None)"
    by (simp add: get_price_comparison_def av yf' cv Let_def split: option.splits)
  show "price_history (fst (snd (get_price_comparison st env symbol))) =
      tail 1000 (price_history st @ [new_data st (record_time env) symbol a y])"
    by (cases "999 < length (price_history st)")
      (simp_all add: get_price_comparison_def av yf' cv row h1 Let_def tail_all
        split: option.splits)
  show "last_fetch_time (fst (snd (get_price_comparison st env symbol))) = last_fetch_time st1"
    by (simp add: get_price_comparison_def av yf' cv Let_def split: option.splits)
qed

lemma last_tail_snoc: "0 < n \<Longrightarrow> last (tail n (xs @ [x])) = x"
  by (simp add: tail_def)

lemma tail_snoc_not_Nil: "0 < n \<Longrightarrow> tail n (xs @ [x]) \<noteq> []"
  by (simp add: tail_def)

lemma stored_row:
  assumes "fst (get_price_comparison st env symbol) \<noteq> Inr (None, None, None)"
  shows "price_history (fst (snd (get_price_comparison st env symbol))) \<noteq> [] \<and>
     cr_symbol (last (price_history (fst (snd (get_price_comparison st env symbol))))) = symbol \<and>
     cr_timestamp (last (price_history (fst (snd (get_price_comparison st env symbol))))) =
       record_time env \<and>
     cr_moving_average (last (price_history (fst (snd (get_price_comparison st env symbol))))) =
       moving_average (calculate_analytics st symbol) \<and>
     cr_volatility (last (price_history (fst (snd (get_price_comparison st env symbol))))) =
       volatility (calculate_analytics st symbol)"
proof -
  from get_price_comparison_cases [of st env symbol] assms obtain a y where
    "price_history (fst (snd (get_price_comparison st env symbol))) =
       tail 1000 (price_history st @ [new_data st (record_time env) symbol a y])"
    by auto
  then show ?thesis
    by (simp add: last_tail_snoc tail_snoc_not_Nil new_data_fields)
qed

lemma length_filter_tail: "length (filter P (tail n xs)) \<le> length (filter P xs)"
proof -
  have "filter P xs = filter P (take (length xs - n) xs) @ filter P (tail n xs)"
    unfolding tail_def filter_append [symmetric] by simp
  then show ?thesis by simp
qed

lemma rows_step:
  "length (filter (\<lambda>r. cr_symbol r = symbol)
       (price_history (fst (snd (get_price_comparison st env symbol'))))) \<le>
   length (filter (\<lambda>r. cr_symbol r = symbol) (price_history st)) +
     (if symbol' = symbol then 1 else 0)"
proof -
  from get_price_comparison_cases [of st env symbol'] show ?thesis
  proof (elim disjE exE conjE)
    assume "price_history (fst (snd (get_price_comparison st env symbol'))) = price_history st"
    then show ?thesis by simp
  next
    fix a y
    assume h: "price_history (fst (snd (get_price_comparison st env symbol'))) =
        tail 1000 (price_history st @ [new_data st (record_time env) symbol' a y])"
    have le: "length (filter (\<lambda>r. cr_symbol r = symbol)
            (tail 1000 (price_history st @ [new_data st (record_time env) symbol' a y]))) \<le>
          length (filter (\<lambda>r. cr_symbol r = symbol)
            (price_history st @ [new_data st (record_time env) symbol' a y]))"
      by (rule length_filter_tail)
    have eq: "length (filter (\<lambda>r. cr_symbol r = symbol)
            (price_history st @ [new_data st (record_time env) symbol' a y])) =
          length (filter (\<lambda>r. cr_symbol r = symbol) (price_history st)) +
            (if symbol' = symbol then 1 else 0)"
      by (simp add: new_data_fields)
    from le eq show ?thesis unfolding h by linarith
  qed
qed

lemma rows_run:
  "length (filter (\<lambda>r. cr_symbol r = symbol) (price_history (get_price_comparisons st cs))) \<le>
   length (filter (\<lambda>r. cr_symbol r = symbol) (price_history st)) +
     length (filter (\<lambda>c. snd c = symbol) cs)"
proof (induction cs arbitrary: st)
  case Nil
  then show ?case by simp
next
  case (Cons c cs)
  obtain env symbol' where c: "c = (env, symbol')" by (cases c)
  from Cons.IH [of "fst (snd (get_price_comparison st env symbol'))"]
    rows_step [of symbol st env symbol']
  show ?case unfolding c by (simp split: if_splits)
qed

text \<open>
  Claim C10, amended. A row stored by a cycle carries the analytics of the history as
  it was before the row was added, so its own discrepancy is not among the values used;
  the values are those of the symbol's rows that the history (cut to 1000 rows) still
  holds then. With fewer than 2 such rows both stored fields are null; otherwise the
  stored moving average is the mean of the last \<open>min 5 k\<close> of their \<open>k\<close> discrepancy
  values and the stored volatility their standard deviation with divisor \<open>k - 1\<close>. In
  a run from a new data fetcher, a row stored for a symbol that had fewer than 2 cycles
  before has null analytics.
\<close>

theorem stored_analytics_precede:
  "(fst (get_price_comparison st env symbol) \<noteq> Inr (None, None, None) \<and>
    ds = map cr_difference (filter (\<lambda>r. cr_symbol r = symbol) (price_history st)) \<longrightarrow>
      price_history (fst (snd (get_price_comparison st env symbol))) \<noteq> [] \<and>
      cr_symbol (last (price_history (fst (snd (get_price_comparison st env symbol))))) = symbol \<and>
      (length ds < 2 \<longrightarrow>
         cr_moving_average (last (price_history (fst (snd (get_price_comparison st env symbol))))) =
           None \<and>
         cr_volatility (last (price_history (fst (snd (get_price_comparison st env symbol))))) =
           None) \<and>
      (2 \<le> length ds \<longrightarrow>
         cr_moving_average (last (price_history (fst (snd (get_price_comparison st env symbol))))) =
           Some (sum_list (drop (length ds - min 5 (length ds)) ds) / real (min 5 (length ds))) \<and>
         cr_volatility (last (price_history (fst (snd (get_price_comparison st env symbol))))) =
           Some (sqrt (sum_list (map (\<lambda>x. (x - sum_list ds / real (length ds))\<^sup>2) ds) /
                       (real (length ds) - 1))))) \<and>
   (length (filter (\<lambda>c. snd c = symbol) cs) < 2 \<and>
    fst (get_price_comparison (get_price_comparisons new_data_fetcher cs) env symbol) \<noteq>
      Inr (None, None, None) \<longrightarrow>
      cr_moving_average (last (price_history (fst (snd
        (get_price_comparison (get_price_comparisons new_data_fetcher cs) env symbol))))) = None \<and>
      cr_volatility (last (price_history (fst (snd
        (get_price_comparison (get_price_comparisons new_data_fetcher cs) env symbol))))) = None)"
proof (intro conjI impI)
  assume a: "fst (get_price_comparison st env symbol) \<noteq> Inr (None, None, None) \<and>
    ds = map cr_difference (filter (\<lambda>r. cr_symbol r = symbol) (price_history st))"
  note row = stored_row [of st env symbol]
  from a row show "price_history (fst (snd (get_price_comparison st env symbol))) \<noteq> []"
    by blast
  from a row
  show "cr_symbol (last (price_history (fst (snd (get_price_comparison st env symbol))))) = symbol"
    by blast
  {
    assume few: "length ds < 2"
    with a have "calculate_analytics st symbol = no_analytics"
      using analytics_of_fewer_than_two [of symbol st] by simp
    with a row
    show "cr_moving_average (last (price_history (fst (snd (get_price_comparison st env symbol))))) =
        None"
      and "cr_volatility (last (price_history (fst (snd (get_price_comparison st env symbol))))) =
        None"
      by (simp_all add: no_analytics_def)
  }
  {
    assume many: "2 \<le> length ds"
    with a have an: "moving_average (calculate_analytics st symbol) = Some (mean (tail 5 ds))"
      "volatility (calculate_analytics st symbol) = Some (std ds)"
      using analytics_of_two_or_more [of symbol st] by simp_all
    from a row an(1)
    show "cr_moving_average (last (price_history (fst (snd (get_price_comparison st env symbol))))) =
        Some (sum_list (drop (length ds - min 5 (length ds)) ds) / real (min 5 (length ds)))"
      by (simp add: mean_tail)
    from a row an(2)
    show "cr_volatility (last (price_history (fst (snd (get_price_comparison st env symbol))))) =
        Some (sqrt (sum_list (map (\<lambda>x. (x - sum_list ds / real (length ds))\<^sup>2) ds) /
                    (real (length ds) - 1)))"
      by (simp add: std_def mean_def)
  }
next
  let ?st = "get_price_comparisons new_data_fetcher cs"
  assume b: "length (filter (\<lambda>c. snd c = symbol) cs) < 2 \<and>
    fst (get_price_comparison ?st env symbol) \<noteq> Inr (None, None, None)"
  from rows_run [of symbol new_data_fetcher cs] b
  have "length (filter (\<lambda>r. cr_symbol r = symbol) (price_history ?st)) < 2"
    by (simp add: new_data_fetcher_def)
  then have "calculate_analytics ?st symbol = no_analytics"
    by (rule analytics_of_fewer_than_two)
  with b stored_row [of ?st env symbol]
  show "cr_moving_average (last (price_history (fst (snd
        (get_price_comparison ?st env symbol))))) = None"
    and "cr_volatility (last (price_history (fst (snd
        (get_price_comparison ?st env symbol))))) = None"
    by (simp_all add: no_analytics_def)
qed

lemma ex_six_stores:
  "fst (get_price_comparison ex_six ex_env ''XYZ'') \<noteq> Inr (None, None, None)"
proof -
  have av: "get_alpha_vantage_data ex_six (fetch_time ex_env) (alpha_vantage ex_env) ''XYZ'' =
      (Some 100, ex_six\<lparr>last_fetch_time := [''XYZ'' \<mapsto> 0]\<rparr>, [AlphaVantageCall ''XYZ''])"
    by (simp add: get_alpha_vantage_data_def ex_six_def ex_env_def)
  have yf: "fst (get_yahoo_finance_data (ex_six\<lparr>last_fetch_time := [''XYZ'' \<mapsto> 0]\<rparr>)
      (yahoo_finance ex_env) ''XYZ'') = Some 101"
    by (simp add: get_yahoo_finance_data_def ex_env_def)
  have cv: "cross_validate_prices (ex_six\<lparr>last_fetch_time := [''XYZ'' \<mapsto> 0]\<rparr>) 100 101 ''XYZ''"
    by (simp add: cross_validate_prices_def)
  from av yf cv show ?thesis by (rule get_price_comparison_stores(1))
qed

lemma first_cycle_stores:
  "fst (get_price_comparison (get_price_comparisons new_data_fetcher []) ex_env ''AAPL'') \<noteq>
     Inr (None, None, None)"
proof -
  have av: "get_alpha_vantage_data new_data_fetcher (fetch_time ex_env) (alpha_vantage ex_env)
      ''AAPL'' =
      (Some 100, new_data_fetcher\<lparr>last_fetch_time := [''AAPL'' \<mapsto> 0]\<rparr>, [AlphaVantageCall ''AAPL''])"
    by (simp add: get_alpha_vantage_data_def new_data_fetcher_def ex_env_def)
  have yf: "fst (get_yahoo_finance_data (new_data_fetcher\<lparr>last_fetch_time := [''AAPL'' \<mapsto> 0]\<rparr>)
      (yahoo_finance ex_env) ''AAPL'') = Some 101"
    by (simp add: get_yahoo_finance_data_def ex_env_def)
  have cv: "cross_validate_prices (new_data_fetcher\<lparr>last_fetch_time := [''AAPL'' \<mapsto> 0]\<rparr>)
      100 101 ''AAPL''"
    by (simp add: cross_validate_prices_def)
  from av yf cv show ?thesis by (simp add: get_price_comparison_stores(1))
qed

theorem stored_analytics_precede_witness:
  "fst (get_price_comparison ex_six ex_env ''XYZ'') \<noteq> Inr (None, None, None) \<and>
   map cr_difference (filter (\<lambda>r. cr_symbol r = ''XYZ'') (price_history ex_six)) =
     [1, 2, 3, 4, 5, 6] \<and>
   cr_symbol (last (price_history (fst (snd (get_price_comparison ex_six ex_env ''XYZ''))))) =
     ''XYZ'' \<and>
   cr_moving_average (last (price_history (fst (snd (get_price_comparison ex_six ex_env ''XYZ''))))) =
     Some 4 \<and>
   cr_volatility (last (price_history (fst (snd (get_price_comparison ex_six ex_env ''XYZ''))))) =
     Some (sqrt (7 / 2)) \<and>
   length (filter (\<lambda>c. snd c = ''AAPL'') ([] :: (cycle_env \<times> string) list)) < 2 \<and>
   fst (get_price_comparison (get_price_comparisons new_data_fetcher []) ex_env ''AAPL'') \<noteq>
     Inr (None, None, None) \<and>
   cr_moving_average (last (price_history (fst (snd
     (get_price_comparison (get_price_comparisons new_data_fetcher []) ex_env ''AAPL''))))) = None \<and>
   cr_volatility (last (price_history (fst (snd
     (get_price_comparison (get_price_comparisons new_data_fetcher []) ex_env ''AAPL''))))) = None"
proof -
  have ds: "map cr_difference (filter (\<lambda>r. cr_symbol r = ''XYZ'') (price_history ex_six)) =
      [1, 2, 3, 4, 5, 6]"
    by (simp add: ex_six_def ex_diff_row_def)
  have var: "sum_list (map (\<lambda>x. (x - sum_list [1, 2, 3, 4, 5, 6] / real (length [1, 2, 3, 4, 5, 6 :: real]))\<^sup>2)
      [1, 2, 3, 4, 5, 6 :: real]) / (real (length [1, 2, 3, 4, 5, 6 :: real]) - 1) = 7 / 2"
    by (simp add: power2_eq_square)
  have none: "length (filter (\<lambda>c. snd c = ''AAPL'') ([] :: (cycle_env \<times> string) list)) < 2"
    by simp
  from stored_analytics_precede [of ex_six ex_env "''XYZ''" "[1, 2, 3, 4, 5, 6]" "[]"]
    ex_six_stores ds
  have "cr_symbol (last (price_history (fst (snd (get_price_comparison ex_six ex_env ''XYZ''))))) =
      ''XYZ'' \<and>
    cr_moving_average (last (price_history (fst (snd (get_price_comparison ex_six ex_env ''XYZ''))))) =
      Some 4 \<and>
    cr_volatility (last (price_history (fst (snd (get_price_comparison ex_six ex_env ''XYZ''))))) =
      Some (sqrt (7 / 2))"
    unfolding var by simp
  moreover from stored_analytics_precede [of ex_six ex_env "''AAPL''" "[]" "[]"]
    first_cycle_stores none
  have "cr_moving_average (last (price_history (fst (snd
      (get_price_comparison (get_price_comparisons new_data_fetcher []) ex_env ''AAPL''))))) = None \<and>
    cr_volatility (last (price_history (fst (snd
      (get_price_comparison (get_price_comparisons new_data_fetcher []) ex_env ''AAPL''))))) = None"
    by blast
  ultimately show ?thesis using ex_six_stores ds none first_cycle_stores by blast
qed

subsection \<open>Eviction and the analytics of a later row\<close>

lemma tail_tail_append: "tail n (tail n xs @ ys) = tail n (xs @ ys)"
  by (cases "n \<le> length xs") (simp_all add: tail_def add.commute)

lemma map_tail: "map f (tail n xs) = tail n (map f xs)"
  by (simp add: tail_def drop_map)

lemma flat_alpha_at:
  assumes "flat_inv st"
  shows "\<exists>st1 calls1.
     get_alpha_vantage_data st now (AVQuote (Num (Finite 100))) symbol = (Some 100, st1, calls1) \<and>
     price_history st1 = price_history st"
proof (cases "case last_fetch_time st symbol of None \<Rightarrow> False | Some t \<Rightarrow> now - t < seconds 12")
  case True
  then have "last_fetch_time st symbol \<noteq> None" by (auto split: option.splits)
  with assms have ne: "price_history st \<noteq> []" by (auto simp: flat_inv_def)
  then have "last (price_history st) \<in> set (price_history st)" by simp
  with assms have "cr_alpha (last (price_history st)) = 100" by (auto simp: flat_inv_def)
  with True ne show ?thesis
    by (auto simp: get_alpha_vantage_data_def split: list.splits)
next
  case False
  then show ?thesis
    by (simp add: get_alpha_vantage_data_def)
qed

lemma flat_alpha:
  assumes "flat_inv st"
  shows "\<exists>st1 calls1.
     get_alpha_vantage_data st (fetch_time ex_flat) (alpha_vantage ex_flat) symbol =
       (Some 100, st1, calls1) \<and>
     price_history st1 = price_history st"
  using flat_alpha_at [OF assms, of 0 symbol] by (simp add: ex_flat_def)

lemma flat_step:
  assumes "flat_inv st"
  shows "flat_inv (fst (snd (get_price_comparison st ex_flat symbol)))"
    and "map cr_symbol (price_history (fst (snd (get_price_comparison st ex_flat symbol)))) =
      tail 1000 (map cr_symbol (price_history st) @ [symbol])"
    and "fst (get_price_comparison st ex_flat symbol) \<noteq> Inr (None, None, None)"
    and "cr_moving_average (last (price_history (fst (snd (get_price_comparison st ex_flat symbol))))) =
      moving_average (calculate_analytics st symbol)"
proof -
  from flat_alpha [OF assms, of symbol] obtain st1 calls1 where
    av: "get_alpha_vantage_data st (fetch_time ex_flat) (alpha_vantage ex_flat) symbol =
       (Some 100, st1, calls1)"
    and h1: "price_history st1 = price_history st"
    by blast
  have yf: "fst (get_yahoo_finance_data st1 (yahoo_finance ex_flat) symbol) = Some 100"
    by (simp add: get_yahoo_finance_data_def ex_flat_def)
  have cv: "cross_validate_prices st1 100 100 symbol"
    by (simp add: cross_validate_prices_def)
  note stores = get_price_comparison_stores [OF av yf cv]
  show "fst (get_price_comparison st ex_flat symbol) \<noteq> Inr (None, None, None)"
    by (rule stores(1))
  show "map cr_symbol (price_history (fst (snd (get_price_comparison st ex_flat symbol)))) =
      tail 1000 (map cr_symbol (price_history st) @ [symbol])"
    unfolding stores(2) by (simp add: map_tail new_data_fields)
  show "cr_moving_average (last (price_history (fst (snd (get_price_comparison st ex_flat symbol))))) =
      moving_average (calculate_analytics st symbol)"
    unfolding stores(2) by (simp add: last_tail_snoc new_data_fields)
  have "set (tail 1000 (price_history st @ [new_data st (record_time ex_flat) symbol 100 100])) \<subseteq>
      set (price_history st @ [new_data st (record_time ex_flat) symbol 100 100])"
    by (rule set_tail)
  with assms show "flat_inv (fst (snd (get_price_comparison st ex_flat symbol)))"
    unfolding flat_inv_def stores(2)
    by (auto simp: tail_snoc_not_Nil new_data_fields new_data_def)
qed

lemma flat_run:
  assumes "flat_inv st" and "length (price_history st) \<le> 1000"
  shows "flat_inv (get_price_comparisons st (map (Pair ex_flat) symbols)) \<and>
     map cr_symbol (price_history (get_price_comparisons st (map (Pair ex_flat) symbols))) =
       tail 1000 (map cr_symbol (price_history st) @ symbols)"
  using assms
proof (induction symbols arbitrary: st)
  case Nil
  then show ?case by (simp add: tail_all)
next
  case (Cons s symbols)
  from Cons.prems(2) have "length (price_history (fst (snd (get_price_comparison st ex_flat s)))) \<le> 1000"
    by (rule cap_step)
  with flat_step(1, 2) [OF Cons.prems(1), of s]
    Cons.IH [of "fst (snd (get_price_comparison st ex_flat s))"]
  show ?case by (simp add: tail_tail_append)
qed

lemma flat_inv_new: "flat_inv new_data_fetcher"
  by (simp add: flat_inv_def new_data_fetcher_def)

lemma length_filter_symbol:
  "length (filter (\<lambda>r. cr_symbol r = symbol) rows) =
   length (filter (\<lambda>s. s = symbol) (map cr_symbol rows))"
  by (induction rows) simp_all

lemma map_constant:
  "\<forall>r \<in> set rows. f r = c \<Longrightarrow> map f rows = replicate (length rows) c"
  by (induction rows) simp_all

lemma flat_differences:
  assumes "flat_inv st"
  shows "map cr_difference (price_history st) = replicate (length (price_history st)) 0"
proof -
  from assms have "\<forall>r \<in> set (price_history st). cr_difference r = 0"
    by (simp add: flat_inv_def)
  then show ?thesis by (rule map_constant)
qed

text \<open>
  Claim C10, as stated: the \<open>n\<close>-th row stored for a symbol carries the mean of the
  previous \<open>min 5 (n - 1)\<close> discrepancy values of the symbol. It fails when the cap has
  evicted rows of the symbol. Two rows are stored for X (discrepancies 0 and 0), then
  999 rows for Y; the history then holds one row of X and the 999 rows of Y. The third
  row stored for X carries no moving average instead of the mean 0 of the previous two.
\<close>

theorem stored_analytics_counterexample:
  "map cr_symbol (price_history
     (get_price_comparisons new_data_fetcher (map (Pair ex_flat) [''X'', ''X'']))) = [''X'', ''X''] \<and>
   map cr_difference (price_history
     (get_price_comparisons new_data_fetcher (map (Pair ex_flat) [''X'', ''X'']))) = [0, 0] \<and>
   map cr_symbol (price_history (get_price_comparisons new_data_fetcher ex_evicting)) =
     ''X'' # replicate 999 ''Y'' \<and>
   fst (get_price_comparison (get_price_comparisons new_data_fetcher ex_evicting) ex_flat ''X'') \<noteq>
     Inr (None, None, None) \<and>
   cr_symbol (last (price_history (fst (snd
     (get_price_comparison (get_price_comparisons new_data_fetcher ex_evicting) ex_flat ''X''))))) =
     ''X'' \<and>
   cr_moving_average (last (price_history (fst (snd
     (get_price_comparison (get_price_comparisons new_data_fetcher ex_evicting) ex_flat ''X''))))) =
     None"
proof -
  let ?two = "get_price_comparisons new_data_fetcher (map (Pair ex_flat) [''X'', ''X''])"
  let ?pre = "get_price_comparisons new_data_fetcher ex_evicting"
  have start: "length (price_history new_data_fetcher) \<le> 1000"
    by (simp add: new_data_fetcher_def)
  from flat_run [OF flat_inv_new start, of "[''X'', ''X'']"]
  have two: "flat_inv ?two" "map cr_symbol (price_history ?two) = [''X'', ''X'']"
    by (simp_all add: new_data_fetcher_def tail_def)
  from two(2) have "length (price_history ?two) = 2"
    by (metis length_map length_Cons list.size(3) numeral_2_eq_2)
  with flat_differences [OF two(1)] have zero: "map cr_difference (price_history ?two) = [0, 0]"
    by (simp add: numeral_2_eq_2)
  from flat_run [OF flat_inv_new start, of "[''X'', ''X''] @ replicate 999 ''Y''"]
  have pre: "flat_inv ?pre" "map cr_symbol (price_history ?pre) = ''X'' # replicate 999 ''Y''"
    by (simp_all add: ex_evicting_def new_data_fetcher_def tail_def)
  have "length (filter (\<lambda>r. cr_symbol r = ''X'') (price_history ?pre)) < 2"
    unfolding length_filter_symbol pre(2) by simp
  then have none: "calculate_analytics ?pre ''X'' = no_analytics"
    by (rule analytics_of_fewer_than_two)
  note step = flat_step [OF pre(1), of "''X''"]
  from step(3) stored_row [of ?pre ex_flat "''X''"]
  have sym: "cr_symbol (last (price_history (fst (snd (get_price_comparison ?pre ex_flat ''X''))))) =
      ''X''"
    by blast
  from step(4) none
  have ma: "cr_moving_average (last (price_history (fst (snd
      (get_price_comparison ?pre ex_flat ''X''))))) = None"
    by (simp add: no_analytics_def)
  from two(2) zero pre(2) step(3) sym ma show ?thesis by blast
qed

end
